theory Spec2Isabelle
  imports Complex_Main "HOL-Library.Sublist"
begin

section \<open>The evaluation executable \<^verbatim>\<open>object_detection/eval.py\<close>\<close>

text \<open>
  The executable reads its command-line flags, resolves three configuration messages by one
  of three strategies, derives an output directory, counts the records of the input file,
  loads the label map and hands everything to the evaluator. The flags are a global mutable
  object in the source (\<^verbatim>\<open>FLAGS\<close>); here they are a record that every function takes and
  returns. Everything outside the process (files, directories, the clock) is a record
  \<open>world\<close>, and every call that leaves the file is written to the world's trace.
\<close>

subsection \<open>Data\<close>

text \<open>The flags, lines 65 to 87, with their declared types.\<close>

record flags =
  eval_training_data :: bool
  checkpoint_dir :: string
  eval_dir :: string
  pipeline_config_path :: string
  eval_config_path :: string
  input_config_path :: string
  model_config_path :: string
  eval_tag :: string
  gpu_fraction :: real
  eval_label :: string

text \<open>
  The protocol-buffer messages. The model and evaluation configurations are only passed on;
  of the input reader the source reads \<^verbatim>\<open>tf_record_input_reader.input_path\<close> and
  \<^verbatim>\<open>label_map_path\<close>.
\<close>

datatype model_config = Model_config string

datatype eval_config = Eval_config string

record input_reader =
  input_path :: string
  label_map_path :: string

record pipeline_config =
  model :: model_config
  pipeline_eval_config :: eval_config
  train_input_reader :: input_reader
  eval_input_reader :: input_reader

text \<open>A label map is the list \<^verbatim>\<open>label_map.item\<close>; a category is an id with a name.\<close>

record label_map_item =
  item_id :: int
  item_name :: string

record category =
  cat_id :: int
  cat_name :: string

text \<open>The exceptions that can leave the file.\<close>

datatype error =
    AssertionError string
  | NotFoundError string
  | ParseError string
  | ValueError string
  | EvaluatorError string

text \<open>
  The positional arguments of \<^verbatim>\<open>evaluator.evaluate\<close>, lines 215 to 218. The two
  \<^verbatim>\<open>functools.partial\<close> objects are represented by the configuration each one closes over
  (\<^verbatim>\<open>model_fn\<close> also fixes \<^verbatim>\<open>is_training=False\<close>).
\<close>

record evaluate_args =
  arg_create_input_dict_fn :: input_reader
  arg_model_fn :: "model_config \<times> bool"
  arg_eval_config :: eval_config
  arg_categories :: "category list"
  arg_checkpoint_dir :: string
  arg_eval_dir :: string
  arg_num_examples :: nat
  arg_gpu_fraction :: real
  arg_max_number_of_evaluations :: "nat option"

text \<open>
  The trace. \<open>Enter_eval_main\<close> records an entry into \<^verbatim>\<open>eval_main\<close> with the flags at
  entry and its argument; the other events are the calls that leave the file.
\<close>

datatype event =
    Enter_eval_main flags "nat option"
  | GFile_read string
  | Mkdir_p string
  | Tf_record_iterator string
  | Load_labelmap string
  | Reset_default_graph
  | Evaluate evaluate_args

text \<open>Broken-down local time, as \<^verbatim>\<open>time.strftime\<close> reads it.\<close>

record struct_time =
  tm_year :: nat
  tm_mon :: nat
  tm_mday :: nat
  tm_hour :: nat
  tm_min :: nat
  tm_sec :: nat

record world =
  files :: "string \<rightharpoonup> string"
  record_files :: "string \<rightharpoonup> string list"
  dirs :: "string set"
  localtime :: struct_time
  trace :: "event list"

text \<open>
  The collaborators whose code is not part of this file: the text-format parsers of the four
  message types and of the label map, the name the label-map utility gives a placeholder
  category, and the evaluator (\<open>None\<close> when it returns, \<open>Some e\<close> when it raises).
\<close>

record externals =
  parse_pipeline :: "string \<Rightarrow> pipeline_config option"
  parse_eval_config :: "string \<Rightarrow> eval_config option"
  parse_model_config :: "string \<Rightarrow> model_config option"
  parse_input_reader :: "string \<Rightarrow> input_reader option"
  parse_labelmap :: "string \<Rightarrow> label_map_item list option"
  placeholder_name :: "int \<Rightarrow> string"
  evaluate :: "evaluate_args \<Rightarrow> error option"

subsection \<open>Library functions\<close>

definition log_event :: "event \<Rightarrow> world \<Rightarrow> world" where
  "log_event e w = w\<lparr>trace := trace w @ [e]\<rparr>"

text \<open>\<^verbatim>\<open>os.path.join(a, b)\<close> of \<^verbatim>\<open>posixpath\<close>, for two arguments.\<close>

definition os_path_join :: "string \<Rightarrow> string \<Rightarrow> string" where
  "os_path_join a b =
     (if b \<noteq> [] \<and> hd b = CHR ''/'' then b
      else if a = [] \<or> last a = CHR ''/'' then a @ b
      else a @ ''/'' @ b)"

text \<open>\<^verbatim>\<open>s.split(sep)\<close> for a one-character separator: never an empty list.\<close>

fun split_on :: "char \<Rightarrow> string \<Rightarrow> string list" where
  "split_on sep [] = [[]]"
| "split_on sep (c # cs) =
     (if c = sep then [] # split_on sep cs
      else (case split_on sep cs of
              [] \<Rightarrow> [[c]]
            | part # parts \<Rightarrow> (c # part) # parts))"

text \<open>
  \<^verbatim>\<open>time.strftime("%Y%m%d-%H%M%S")\<close>: the year in decimal, then month, day, hour, minute
  and second on two digits each, a dash between the date and the time.
\<close>

definition digit_char :: "nat \<Rightarrow> char" where
  "digit_char d = ''0123456789'' ! (d mod 10)"

fun decimal :: "nat \<Rightarrow> string" where
  "decimal n = (if n < 10 then [digit_char n] else decimal (n div 10) @ [digit_char n])"

definition two_digits :: "nat \<Rightarrow> string" where
  "two_digits n = [digit_char (n div 10), digit_char n]"

definition strftime_YmdHMS :: "struct_time \<Rightarrow> string" where
  "strftime_YmdHMS t =
     decimal (tm_year t) @ two_digits (tm_mon t) @ two_digits (tm_mday t) @ ''-'' @
     two_digits (tm_hour t) @ two_digits (tm_min t) @ two_digits (tm_sec t)"

text \<open>
  \<^verbatim>\<open>with tf.gfile.GFile(path, 'r') as f: text_format.Merge(f.read(), msg)\<close>: the read
  raises when the file is missing, the merge when the text does not parse.
\<close>

definition gfile_read :: "string \<Rightarrow> world \<Rightarrow> world \<times> (error + string)" where
  "gfile_read path w =
     (log_event (GFile_read path) w,
      case files w path of None \<Rightarrow> Inl (NotFoundError path) | Some s \<Rightarrow> Inr s)"

definition read_message :: "(string \<Rightarrow> 'a option) \<Rightarrow> string \<Rightarrow> world \<Rightarrow> world \<times> (error + 'a)" where
  "read_message parse path w =
     (case gfile_read path w of
        (w', Inl e) \<Rightarrow> (w', Inl e)
      | (w', Inr s) \<Rightarrow>
          (case parse s of None \<Rightarrow> (w', Inl (ParseError path)) | Some m \<Rightarrow> (w', Inr m)))"

text \<open>
  \<^verbatim>\<open>tf.python_io.tf_record_iterator(path)\<close>, consumed to its end: the serialized records
  of the file in order, none parsed.
\<close>

definition tf_record_iterator :: "string \<Rightarrow> world \<Rightarrow> world \<times> (error + string list)" where
  "tf_record_iterator path w =
     (log_event (Tf_record_iterator path) w,
      case record_files w path of None \<Rightarrow> Inl (NotFoundError path) | Some rs \<Rightarrow> Inr rs)"

text \<open>\<^verbatim>\<open>max(xs)\<close> of Python raises on an empty list.\<close>

fun py_max :: "int list \<Rightarrow> error + int" where
  "py_max [] = Inl (ValueError ''max() arg is an empty sequence'')"
| "py_max (x # xs) = Inr (fold max xs x)"

text \<open>
  Modelled from the spec: \<^verbatim>\<open>global_utils.custom_utils.mkdir_p\<close> is not part of the file.
  The spec has it create the directory, a directory that exists already being no error, and
  return its path.
\<close>

definition mkdir_p :: "string \<Rightarrow> world \<Rightarrow> string \<times> world" where
  "mkdir_p path w = (path, log_event (Mkdir_p path) (w\<lparr>dirs := insert path (dirs w)\<rparr>))"

text \<open>
  Modelled from the spec: \<^verbatim>\<open>label_map_util.load_labelmap\<close> is not part of the file. The
  spec has it read the label-map file and fail on a missing or malformed one.
\<close>

definition load_labelmap :: "externals \<Rightarrow> string \<Rightarrow> world \<Rightarrow> world \<times> (error + label_map_item list)" where
  "load_labelmap ext path w =
     (log_event (Load_labelmap path) w,
      case files w path of
        None \<Rightarrow> Inl (NotFoundError path)
      | Some s \<Rightarrow> (case parse_labelmap ext s of None \<Rightarrow> Inl (ParseError path) | Some lm \<Rightarrow> Inr lm))"

text \<open>
  Modelled from the spec: \<^verbatim>\<open>label_map_util.convert_label_map_to_categories\<close> is not part
  of the file. The spec has it produce a category list covering the ids from 1 to
  \<open>max_num_classes\<close>, an id that the label map lacks getting a placeholder entry.
\<close>

definition category_for :: "externals \<Rightarrow> label_map_item list \<Rightarrow> int \<Rightarrow> category" where
  "category_for ext label_map i =
     (case find (\<lambda>item. item_id item = i) label_map of
        Some item \<Rightarrow> \<lparr>cat_id = i, cat_name = item_name item\<rparr>
      | None \<Rightarrow> \<lparr>cat_id = i, cat_name = placeholder_name ext i\<rparr>)"

definition convert_label_map_to_categories ::
    "externals \<Rightarrow> label_map_item list \<Rightarrow> int \<Rightarrow> category list" where
  "convert_label_map_to_categories ext label_map max_num_classes =
     map (category_for ext label_map) [1..max_num_classes]"

subsection \<open>The three configuration strategies, lines 90 to 173\<close>

type_synonym configs = "model_config \<times> eval_config \<times> input_reader"

definition get_configs_from_pipeline_file ::
    "externals \<Rightarrow> flags \<Rightarrow> world \<Rightarrow> world \<times> (error + configs)" where
  "get_configs_from_pipeline_file ext f w =
     (case read_message (parse_pipeline ext) (pipeline_config_path f) w of
        (w1, Inl e) \<Rightarrow> (w1, Inl e)
      | (w1, Inr pipeline) \<Rightarrow>
          (w1, Inr (model pipeline, pipeline_eval_config pipeline,
                    if eval_training_data f then train_input_reader pipeline
                    else eval_input_reader pipeline)))"

definition get_configs_from_multiple_files ::
    "externals \<Rightarrow> flags \<Rightarrow> world \<Rightarrow> world \<times> (error + configs)" where
  "get_configs_from_multiple_files ext f w =
     (case read_message (parse_eval_config ext) (eval_config_path f) w of
        (w1, Inl e) \<Rightarrow> (w1, Inl e)
      | (w1, Inr ec) \<Rightarrow>
          (case read_message (parse_model_config ext) (model_config_path f) w1 of
             (w2, Inl e) \<Rightarrow> (w2, Inl e)
           | (w2, Inr mc) \<Rightarrow>
               (case read_message (parse_input_reader ext) (input_config_path f) w2 of
                  (w3, Inl e) \<Rightarrow> (w3, Inl e)
                | (w3, Inr ic) \<Rightarrow> (w3, Inr (mc, ec, ic)))))"

definition get_configs_from_checkpoint_dir ::
    "externals \<Rightarrow> flags \<Rightarrow> world \<Rightarrow> world \<times> (error + configs)" where
  "get_configs_from_checkpoint_dir ext f w =
     (case read_message (parse_eval_config ext)
             (os_path_join (checkpoint_dir f) ''eval.config'') w of
        (w1, Inl e) \<Rightarrow> (w1, Inl e)
      | (w1, Inr ec) \<Rightarrow>
          (case read_message (parse_model_config ext)
                  (os_path_join (checkpoint_dir f) ''model.config'') w1 of
             (w2, Inl e) \<Rightarrow> (w2, Inl e)
           | (w2, Inr mc) \<Rightarrow>
               (case read_message (parse_input_reader ext)
                       (if eval_training_data f
                        then os_path_join (checkpoint_dir f) ''train_input.config''
                        else os_path_join (checkpoint_dir f) ''eval_input.config'') w2 of
                  (w3, Inl e) \<Rightarrow> (w3, Inl e)
                | (w3, Inr ic) \<Rightarrow> (w3, Inr (mc, ec, ic)))))"

subsection \<open>\<^verbatim>\<open>eval_main\<close>, lines 175 to 218\<close>

text \<open>Lines 176 to 182: the defaults taken from a non-empty \<^verbatim>\<open>eval_label\<close>.\<close>

definition label_defaults :: "flags \<Rightarrow> flags" where
  "label_defaults f =
     (if eval_label f \<noteq> [] then
        let f1 = (if pipeline_config_path f = []
                  then f\<lparr>pipeline_config_path := ''../configs/test/'' @ eval_label f @ ''.config''\<rparr>
                  else f);
            f2 = (if checkpoint_dir f1 = []
                  then f1\<lparr>checkpoint_dir := ''../checkpoints/train/'' @ eval_label f1\<rparr>
                  else f1);
            f3 = f2\<lparr>eval_dir := ''../checkpoints/eval/'' @ eval_label f2\<rparr>
        in f3\<lparr>eval_tag := eval_label f3\<rparr>
      else f)"

text \<open>Lines 186 to 191: the choice of the strategy.\<close>

definition resolve_configs :: "externals \<Rightarrow> flags \<Rightarrow> world \<Rightarrow> world \<times> (error + configs)" where
  "resolve_configs ext f w =
     (if pipeline_config_path f \<noteq> [] then get_configs_from_pipeline_file ext f w
      else if eval_config_path f \<noteq> [] then get_configs_from_multiple_files ext f w
      else get_configs_from_checkpoint_dir ext f w)"

text \<open>Lines 193 to 196: the output directory when \<^verbatim>\<open>eval_dir\<close> is empty.\<close>

definition derive_eval_dir :: "flags \<Rightarrow> world \<Rightarrow> flags \<times> world" where
  "derive_eval_dir f w =
     (if eval_dir f = [] then
        let f1 = (if eval_tag f = [] then f\<lparr>eval_tag := strftime_YmdHMS (localtime w)\<rparr> else f);
            (path, w1) = mkdir_p (checkpoint_dir f1 @ ''_eval_'' @ eval_tag f1) w
        in (f1\<lparr>eval_dir := path\<rparr>, w1)
      else (f, w))"

text \<open>
  Lines 207 to 218: the example count, the categories and the call of the evaluator. An
  exception leaves the flags as they are at that point.
\<close>

definition dispatch ::
    "externals \<Rightarrow> nat option \<Rightarrow> configs \<Rightarrow> flags \<Rightarrow> world \<Rightarrow> (flags \<times> world) \<times> (error + unit)" where
  "dispatch ext max_number_of_evaluations cfg f w =
     (case cfg of (mc, ec, ic) \<Rightarrow>
        (case tf_record_iterator (input_path ic) w of
           (w1, Inl e) \<Rightarrow> ((f, w1), Inl e)
         | (w1, Inr records) \<Rightarrow>
             (case load_labelmap ext (label_map_path ic) w1 of
                (w2, Inl e) \<Rightarrow> ((f, w2), Inl e)
              | (w2, Inr label_map) \<Rightarrow>
                  (case py_max (map item_id label_map) of
                     Inl e \<Rightarrow> ((f, w2), Inl e)
                   | Inr max_num_classes \<Rightarrow>
                       let args = \<lparr>arg_create_input_dict_fn = ic,
                                   arg_model_fn = (mc, False),
                                   arg_eval_config = ec,
                                   arg_categories =
                                     convert_label_map_to_categories ext label_map max_num_classes,
                                   arg_checkpoint_dir = checkpoint_dir f,
                                   arg_eval_dir = eval_dir f,
                                   arg_num_examples = length records,
                                   arg_gpu_fraction = gpu_fraction f,
                                   arg_max_number_of_evaluations = max_number_of_evaluations\<rparr>;
                           w3 = log_event (Evaluate args) w2
                       in (case evaluate ext args of
                             Some e \<Rightarrow> ((f, w3), Inl e)
                           | None \<Rightarrow> ((f, w3), Inr ()))))))"

definition eval_main ::
    "externals \<Rightarrow> nat option \<Rightarrow> flags \<times> world \<Rightarrow> (flags \<times> world) \<times> (error + unit)" where
  "eval_main ext max_number_of_evaluations s =
     (case s of (f0, w0) \<Rightarrow>
        let w = log_event (Enter_eval_main f0 max_number_of_evaluations) w0;
            f = label_defaults f0
        in if checkpoint_dir f = [] then ((f, w), Inl (AssertionError ''`checkpoint_dir` is missing.''))
           else (case resolve_configs ext f w of
                   (w1, Inl e) \<Rightarrow> ((f, w1), Inl e)
                 | (w1, Inr cfg) \<Rightarrow>
                     (case derive_eval_dir f w1 of
                        (f2, w2) \<Rightarrow> dispatch ext max_number_of_evaluations cfg f2 w2)))"

subsection \<open>\<^verbatim>\<open>main\<close>, lines 220 to 232\<close>

text \<open>
  The \<^verbatim>\<open>for\<close> loop of lines 226 to 231. An exception of a run leaves the loop; the labels
  after it are not run.
\<close>

fun run_labels ::
    "externals \<Rightarrow> string list \<Rightarrow> flags \<times> world \<Rightarrow> (flags \<times> world) \<times> (error + unit)" where
  "run_labels ext [] s = (s, Inr ())"
| "run_labels ext (label # labels) (f, w) =
     (case eval_main ext (Some 1)
             (f\<lparr>eval_label := label, pipeline_config_path := [], checkpoint_dir := []\<rparr>,
              log_event Reset_default_graph w) of
        (s1, Inl e) \<Rightarrow> (s1, Inl e)
      | (s1, Inr u) \<Rightarrow> run_labels ext labels s1)"

text \<open>
  The \<^verbatim>\<open>while True\<close> of line 225 ends with an unconditional \<^verbatim>\<open>break\<close> (line 232) after
  the \<^verbatim>\<open>for\<close> loop, so its body runs once.
\<close>

definition main :: "externals \<Rightarrow> flags \<times> world \<Rightarrow> (flags \<times> world) \<times> (error + unit)" where
  "main ext s =
     (case s of (f, w) \<Rightarrow>
        let eval_label_list = split_on CHR '','' (eval_label f)
        in if eval_label f = [] \<or> length eval_label_list = 1 then eval_main ext None (f, w)
           else run_labels ext eval_label_list (f, w))"

subsection \<open>Observations\<close>

text \<open>
  What a run did between two worlds is the part of the trace it added. The functions
  below read one kind of event off a trace; \<open>driver_steps\<close> keeps what the loop of
  \<^verbatim>\<open>main\<close> does: the graph resets, and the entries into \<^verbatim>\<open>eval_main\<close> with the three
  flags the loop sets and the argument.
\<close>

definition emitted :: "world \<Rightarrow> world \<Rightarrow> event list" where
  "emitted w w' = drop (length (trace w)) (trace w')"

fun gfile_reads :: "event list \<Rightarrow> string list" where
  "gfile_reads [] = []"
| "gfile_reads (GFile_read path # es) = path # gfile_reads es"
| "gfile_reads (e # es) = gfile_reads es"

fun mkdirs :: "event list \<Rightarrow> string list" where
  "mkdirs [] = []"
| "mkdirs (Mkdir_p path # es) = path # mkdirs es"
| "mkdirs (e # es) = mkdirs es"

fun evaluate_calls :: "event list \<Rightarrow> evaluate_args list" where
  "evaluate_calls [] = []"
| "evaluate_calls (Evaluate args # es) = args # evaluate_calls es"
| "evaluate_calls (e # es) = evaluate_calls es"

fun is_external_call :: "event \<Rightarrow> bool" where
  "is_external_call (Enter_eval_main f n) = False"
| "is_external_call e = True"

datatype driver_step = Reset_step | Call_step string string string "nat option"

fun driver_steps :: "event list \<Rightarrow> driver_step list" where
  "driver_steps [] = []"
| "driver_steps (Reset_default_graph # es) = Reset_step # driver_steps es"
| "driver_steps (Enter_eval_main f n # es) =
     Call_step (eval_label f) (pipeline_config_path f) (checkpoint_dir f) n # driver_steps es"
| "driver_steps (e # es) = driver_steps es"

definition logged :: "event list \<Rightarrow> world \<Rightarrow> world" where
  "logged es w = w\<lparr>trace := trace w @ es\<rparr>"

text \<open>
  The state in which the loop of \<^verbatim>\<open>main\<close> enters the run of a label (lines 227 to 230),
  and the state that a list of such runs leaves behind, whatever their outcomes. With them
  the outcome of the run at a position of the label list can be named.
\<close>

definition enter_label :: "string \<Rightarrow> flags \<times> world \<Rightarrow> flags \<times> world" where
  "enter_label label s =
     (case s of (f, w) \<Rightarrow>
        (f\<lparr>eval_label := label, pipeline_config_path := [], checkpoint_dir := []\<rparr>,
         log_event Reset_default_graph w))"

fun after_runs :: "externals \<Rightarrow> string list \<Rightarrow> flags \<times> world \<Rightarrow> flags \<times> world" where
  "after_runs ext [] s = s"
| "after_runs ext (label # labels) s =
     after_runs ext labels (fst (eval_main ext (Some 1) (enter_label label s)))"

abbreviation flags_after :: "(flags \<times> world) \<times> (error + unit) \<Rightarrow> flags" where
  "flags_after run \<equiv> fst (fst run)"

abbreviation world_after :: "(flags \<times> world) \<times> (error + unit) \<Rightarrow> world" where
  "world_after run \<equiv> snd (fst run)"

abbreviation outcome :: "(flags \<times> world) \<times> (error + unit) \<Rightarrow> error + unit" where
  "outcome run \<equiv> snd run"

subsection \<open>The strategies as the specification names them\<close>

text \<open>
  Strategy A is the single pipeline file, B the three separate files, C the convention of
  the checkpoint directory. \<open>strategy_files\<close> lists the files a strategy opens, in the
  order in which it opens them.
\<close>

datatype strategy = Strategy_A | Strategy_B | Strategy_C

definition select_strategy :: "flags \<Rightarrow> strategy" where
  "select_strategy f =
     (if pipeline_config_path f \<noteq> [] then Strategy_A
      else if eval_config_path f \<noteq> [] then Strategy_B
      else Strategy_C)"

fun strategy_files :: "strategy \<Rightarrow> flags \<Rightarrow> string list" where
  "strategy_files Strategy_A f = [pipeline_config_path f]"
| "strategy_files Strategy_B f = [eval_config_path f, model_config_path f, input_config_path f]"
| "strategy_files Strategy_C f =
     [os_path_join (checkpoint_dir f) ''eval.config'',
      os_path_join (checkpoint_dir f) ''model.config'',
      os_path_join (checkpoint_dir f)
        (if eval_training_data f then ''train_input.config'' else ''eval_input.config'')]"

subsection \<open>Example inputs\<close>

text \<open>
  A world with a pipeline file for the label \<open>a\<close>, the three files of a checkpoint
  directory, a label map with the ids 1, 2 and 5, and an input file of ten records.
\<close>

definition example_flags :: flags where
  "example_flags =
     \<lparr>eval_training_data = False, checkpoint_dir = [], eval_dir = [],
      pipeline_config_path = [], eval_config_path = [], input_config_path = [],
      model_config_path = [], eval_tag = [], gpu_fraction = 0, eval_label = []\<rparr>"

definition example_input_reader :: input_reader where
  "example_input_reader = \<lparr>input_path = ''eval.record'', label_map_path = ''labels.pbtxt''\<rparr>"

definition example_label_map :: "label_map_item list" where
  "example_label_map =
     [\<lparr>item_id = 1, item_name = ''cat''\<rparr>, \<lparr>item_id = 2, item_name = ''dog''\<rparr>,
      \<lparr>item_id = 5, item_name = ''bird''\<rparr>]"

definition example_externals :: externals where
  "example_externals =
     \<lparr>parse_pipeline = (\<lambda>s. if s = ''pipeline'' then
          Some \<lparr>model = Model_config ''m'', pipeline_eval_config = Eval_config ''e'',
                train_input_reader = \<lparr>input_path = ''train.record'', label_map_path = ''labels.pbtxt''\<rparr>,
                eval_input_reader = example_input_reader\<rparr>
          else None),
      parse_eval_config = (\<lambda>s. if s = ''eval'' then Some (Eval_config ''e'') else None),
      parse_model_config = (\<lambda>s. if s = ''model'' then Some (Model_config ''m'') else None),
      parse_input_reader = (\<lambda>s. if s = ''input'' then Some example_input_reader else None),
      parse_labelmap = (\<lambda>s. if s = ''labels'' then Some example_label_map else None),
      placeholder_name = (\<lambda>i. ''placeholder''),
      evaluate = (\<lambda>args. None)\<rparr>"

definition example_world :: world where
  "example_world =
     \<lparr>files = [''../configs/test/a.config'' \<mapsto> ''pipeline'',
               ''p.config'' \<mapsto> ''pipeline'',
               ''/tmp/ckpt/eval.config'' \<mapsto> ''eval'',
               ''/tmp/ckpt/model.config'' \<mapsto> ''model'',
               ''/tmp/ckpt/eval_input.config'' \<mapsto> ''input'',
               ''labels.pbtxt'' \<mapsto> ''labels''],
      record_files = [''eval.record'' \<mapsto> replicate 10 ''record''],
      dirs = {''/tmp/ckpt''},
      localtime = \<lparr>tm_year = 2026, tm_mon = 11, tm_mday = 3, tm_hour = 7, tm_min = 5, tm_sec = 9\<rparr>,
      trace = []\<rparr>"

text \<open>
  What the evaluator is called with when the example world is evaluated from the
  checkpoint directory \<^verbatim>\<open>/tmp/ckpt\<close>, all other flags at their defaults.
\<close>

definition example_evaluate_args :: evaluate_args where
  "example_evaluate_args =
     \<lparr>arg_create_input_dict_fn = example_input_reader,
      arg_model_fn = (Model_config ''m'', False),
      arg_eval_config = Eval_config ''e'',
      arg_categories =
        [\<lparr>cat_id = 1, cat_name = ''cat''\<rparr>, \<lparr>cat_id = 2, cat_name = ''dog''\<rparr>,
         \<lparr>cat_id = 3, cat_name = ''placeholder''\<rparr>, \<lparr>cat_id = 4, cat_name = ''placeholder''\<rparr>,
         \<lparr>cat_id = 5, cat_name = ''bird''\<rparr>],
      arg_checkpoint_dir = ''/tmp/ckpt'',
      arg_eval_dir = ''/tmp/ckpt_eval_20261103-070509'',
      arg_num_examples = 10,
      arg_gpu_fraction = 0,
      arg_max_number_of_evaluations = None\<rparr>"



lemmas example_defs = example_flags_def example_input_reader_def example_label_map_def
  example_externals_def example_world_def

lemmas run_defs = eval_main_def label_defaults_def resolve_configs_def
  get_configs_from_pipeline_file_def get_configs_from_multiple_files_def
  get_configs_from_checkpoint_dir_def read_message_def gfile_read_def log_event_def
  derive_eval_dir_def mkdir_p_def dispatch_def tf_record_iterator_def load_labelmap_def
  convert_label_map_to_categories_def category_for_def os_path_join_def
  strftime_YmdHMS_def two_digits_def digit_char_def emitted_def Let_def

section \<open>Properties\<close>

subsection \<open>The trace and the frame of each step\<close>

lemma trace_log_event [simp]: "trace (log_event e w) = trace w @ [e]"
  and files_log_event [simp]: "files (log_event e w) = files w"
  and record_files_log_event [simp]: "record_files (log_event e w) = record_files w"
  and dirs_log_event [simp]: "dirs (log_event e w) = dirs w"
  and localtime_log_event [simp]: "localtime (log_event e w) = localtime w"
  by (simp_all add: log_event_def)

lemma emitted_append [simp]: "trace w' = trace w @ es \<Longrightarrow> emitted w w' = es"
  by (simp add: emitted_def)

lemma gfile_reads_append [simp]: "gfile_reads (xs @ ys) = gfile_reads xs @ gfile_reads ys"
  by (induction xs rule: gfile_reads.induct) simp_all

lemma mkdirs_append [simp]: "mkdirs (xs @ ys) = mkdirs xs @ mkdirs ys"
  by (induction xs rule: mkdirs.induct) simp_all

lemma evaluate_calls_append [simp]: "evaluate_calls (xs @ ys) = evaluate_calls xs @ evaluate_calls ys"
  by (induction xs rule: evaluate_calls.induct) simp_all

lemma driver_steps_append [simp]: "driver_steps (xs @ ys) = driver_steps xs @ driver_steps ys"
  by (induction xs rule: driver_steps.induct) simp_all

lemma logged_simps [simp]:
  "trace (logged es w) = trace w @ es"
  "files (logged es w) = files w"
  "record_files (logged es w) = record_files w"
  "dirs (logged es w) = dirs w"
  "localtime (logged es w) = localtime w"
  by (simp_all add: logged_def)

lemma log_event_logged: "log_event e w = logged [e] w"
  by (simp add: log_event_def logged_def)

lemma logged_logged [simp]: "logged es' (logged es w) = logged (es @ es') w"
  by (simp add: logged_def)

lemma read_message_logged: "read_message parse path w = (w', r) \<Longrightarrow> w' = logged [GFile_read path] w"
  by (auto simp: read_message_def gfile_read_def log_event_logged split: option.splits)

lemma pipeline_file_logged:
  "get_configs_from_pipeline_file ext f w = (w', r) \<Longrightarrow>
     w' = logged [GFile_read (pipeline_config_path f)] w"
  by (auto simp: get_configs_from_pipeline_file_def split: prod.splits sum.splits
      dest: read_message_logged)

lemma multiple_files_logged:
  "get_configs_from_multiple_files ext f w = (w', r) \<Longrightarrow>
     (\<exists>e. r = Inl e \<and> w' = logged [GFile_read (eval_config_path f)] w) \<or>
     (\<exists>e. r = Inl e \<and>
        w' = logged [GFile_read (eval_config_path f), GFile_read (model_config_path f)] w) \<or>
     w' = logged [GFile_read (eval_config_path f), GFile_read (model_config_path f),
                  GFile_read (input_config_path f)] w"
  by (auto simp: get_configs_from_multiple_files_def split: prod.splits sum.splits
      dest!: read_message_logged)

lemma checkpoint_dir_logged:
  "get_configs_from_checkpoint_dir ext f w = (w', r) \<Longrightarrow>
     (\<exists>e. r = Inl e \<and> w' = logged [GFile_read (os_path_join (checkpoint_dir f) ''eval.config'')] w) \<or>
     (\<exists>e. r = Inl e \<and>
        w' = logged [GFile_read (os_path_join (checkpoint_dir f) ''eval.config''),
                     GFile_read (os_path_join (checkpoint_dir f) ''model.config'')] w) \<or>
     w' = logged [GFile_read (os_path_join (checkpoint_dir f) ''eval.config''),
                  GFile_read (os_path_join (checkpoint_dir f) ''model.config''),
                  GFile_read (os_path_join (checkpoint_dir f)
                    (if eval_training_data f then ''train_input.config''
                     else ''eval_input.config''))] w"
  by (auto simp: get_configs_from_checkpoint_dir_def split: prod.splits sum.splits if_splits
      dest!: read_message_logged)

lemma resolve_configs_logged:
  assumes "resolve_configs ext f w = (w', r)"
  shows "\<exists>reads. w' = logged (map GFile_read reads) w \<and> reads \<noteq> [] \<and>
           prefix reads (strategy_files (select_strategy f) f) \<and>
           ((\<exists>cfg. r = Inr cfg) \<longrightarrow> reads = strategy_files (select_strategy f) f)"
proof (cases "select_strategy f")
  case Strategy_A
  then have "get_configs_from_pipeline_file ext f w = (w', r)"
    using assms by (auto simp: resolve_configs_def select_strategy_def split: if_splits)
  from pipeline_file_logged [OF this] Strategy_A show ?thesis
    by (intro exI [of _ "[pipeline_config_path f]"]) simp
next
  case Strategy_B
  then have "get_configs_from_multiple_files ext f w = (w', r)"
    using assms by (auto simp: resolve_configs_def select_strategy_def split: if_splits)
  from multiple_files_logged [OF this] consider
      (one) e where "r = Inl e" "w' = logged (map GFile_read [eval_config_path f]) w"
    | (two) e where "r = Inl e"
        "w' = logged (map GFile_read [eval_config_path f, model_config_path f]) w"
    | (three)
        "w' = logged (map GFile_read
                [eval_config_path f, model_config_path f, input_config_path f]) w"
    by auto
  then show ?thesis
  proof cases
    case one
    with Strategy_B show ?thesis by (intro exI [of _ "[eval_config_path f]"]) simp
  next
    case two
    with Strategy_B show ?thesis
      by (intro exI [of _ "[eval_config_path f, model_config_path f]"]) simp
  next
    case three
    with Strategy_B show ?thesis
      by (intro exI [of _ "[eval_config_path f, model_config_path f, input_config_path f]"]) simp
  qed
next
  case Strategy_C
  let ?e = "os_path_join (checkpoint_dir f) ''eval.config''"
  let ?m = "os_path_join (checkpoint_dir f) ''model.config''"
  let ?i = "os_path_join (checkpoint_dir f)
              (if eval_training_data f then ''train_input.config'' else ''eval_input.config'')"
  from Strategy_C have "get_configs_from_checkpoint_dir ext f w = (w', r)"
    using assms by (auto simp: resolve_configs_def select_strategy_def split: if_splits)
  from checkpoint_dir_logged [OF this] consider
      (one) e where "r = Inl e" "w' = logged (map GFile_read [?e]) w"
    | (two) e where "r = Inl e" "w' = logged (map GFile_read [?e, ?m]) w"
    | (three) "w' = logged (map GFile_read [?e, ?m, ?i]) w"
    by auto
  then show ?thesis
  proof cases
    case one
    with Strategy_C show ?thesis by (intro exI [of _ "[?e]"]) simp
  next
    case two
    with Strategy_C show ?thesis by (intro exI [of _ "[?e, ?m]"]) simp
  next
    case three
    with Strategy_C show ?thesis by (intro exI [of _ "[?e, ?m, ?i]"]) simp
  qed
qed


lemma derive_eval_dir_given:
  "eval_dir f \<noteq> [] \<Longrightarrow> derive_eval_dir f w = (f, w)"
  by (simp add: derive_eval_dir_def)

lemma derive_eval_dir_tagged:
  "eval_dir f = [] \<Longrightarrow> eval_tag f \<noteq> [] \<Longrightarrow>
     derive_eval_dir f w =
       (f\<lparr>eval_dir := checkpoint_dir f @ ''_eval_'' @ eval_tag f\<rparr>,
        logged [Mkdir_p (checkpoint_dir f @ ''_eval_'' @ eval_tag f)]
          (w\<lparr>dirs := insert (checkpoint_dir f @ ''_eval_'' @ eval_tag f) (dirs w)\<rparr>))"
  by (simp add: derive_eval_dir_def mkdir_p_def log_event_logged)

lemma derive_eval_dir_timestamp:
  "eval_dir f = [] \<Longrightarrow> eval_tag f = [] \<Longrightarrow>
     derive_eval_dir f w =
       (f\<lparr>eval_tag := strftime_YmdHMS (localtime w),
          eval_dir := checkpoint_dir f @ ''_eval_'' @ strftime_YmdHMS (localtime w)\<rparr>,
        logged [Mkdir_p (checkpoint_dir f @ ''_eval_'' @ strftime_YmdHMS (localtime w))]
          (w\<lparr>dirs := insert (checkpoint_dir f @ ''_eval_'' @ strftime_YmdHMS (localtime w))
                     (dirs w)\<rparr>))"
  by (simp add: derive_eval_dir_def mkdir_p_def log_event_logged)

lemma dispatch_cases:
  assumes "dispatch ext n (mc, ec, ic) f w = ((f', w'), r)"
  shows "f' = f \<and>
    ((\<exists>e. r = Inl e \<and> w' = logged [Tf_record_iterator (input_path ic)] w) \<or>
     (\<exists>e. r = Inl e \<and>
        w' = logged [Tf_record_iterator (input_path ic), Load_labelmap (label_map_path ic)] w) \<or>
     (\<exists>records s label_map m.
        record_files w (input_path ic) = Some records \<and>
        files w (label_map_path ic) = Some s \<and>
        parse_labelmap ext s = Some label_map \<and>
        py_max (map item_id label_map) = Inr m \<and>
        w' = logged [Tf_record_iterator (input_path ic), Load_labelmap (label_map_path ic),
               Evaluate \<lparr>arg_create_input_dict_fn = ic,
                 arg_model_fn = (mc, False),
                 arg_eval_config = ec,
                 arg_categories = convert_label_map_to_categories ext label_map m,
                 arg_checkpoint_dir = checkpoint_dir f,
                 arg_eval_dir = eval_dir f,
                 arg_num_examples = length records,
                 arg_gpu_fraction = gpu_fraction f,
                 arg_max_number_of_evaluations = n\<rparr>] w \<and>
        r = (case evaluate ext \<lparr>arg_create_input_dict_fn = ic,
                 arg_model_fn = (mc, False),
                 arg_eval_config = ec,
                 arg_categories = convert_label_map_to_categories ext label_map m,
                 arg_checkpoint_dir = checkpoint_dir f,
                 arg_eval_dir = eval_dir f,
                 arg_num_examples = length records,
                 arg_gpu_fraction = gpu_fraction f,
                 arg_max_number_of_evaluations = n\<rparr> of
               Some e \<Rightarrow> Inl e | None \<Rightarrow> Inr ())))"
  using assms
  by (auto simp: dispatch_def tf_record_iterator_def load_labelmap_def log_event_logged Let_def
      split: option.splits sum.splits)

lemma eval_main_cases:
  assumes "eval_main ext n (f, w) = ((f', w'), r)"
  obtains
    (assertion) "checkpoint_dir (label_defaults f) = []" "f' = label_defaults f"
      "w' = logged [Enter_eval_main f n] w"
      "r = Inl (AssertionError ''`checkpoint_dir` is missing.'')"
  | (unresolved) e where "checkpoint_dir (label_defaults f) \<noteq> []"
      "resolve_configs ext (label_defaults f) (logged [Enter_eval_main f n] w) = (w', Inl e)"
      "f' = label_defaults f" "r = Inl e"
  | (resolved) w1 cfg f2 w2 where "checkpoint_dir (label_defaults f) \<noteq> []"
      "resolve_configs ext (label_defaults f) (logged [Enter_eval_main f n] w) = (w1, Inr cfg)"
      "derive_eval_dir (label_defaults f) w1 = (f2, w2)"
      "dispatch ext n cfg f2 w2 = ((f', w'), r)"
  using assms
  by (auto simp: eval_main_def Let_def log_event_logged split: if_splits prod.splits sum.splits)

lemma label_defaults_labelled:
  "eval_label f \<noteq> [] \<Longrightarrow>
     label_defaults f =
       f\<lparr>pipeline_config_path :=
            (if pipeline_config_path f = [] then ''../configs/test/'' @ eval_label f @ ''.config''
             else pipeline_config_path f),
          checkpoint_dir :=
            (if checkpoint_dir f = [] then ''../checkpoints/train/'' @ eval_label f
             else checkpoint_dir f),
          eval_dir := ''../checkpoints/eval/'' @ eval_label f,
          eval_tag := eval_label f\<rparr>"
  by (simp add: label_defaults_def)

lemma label_defaults_unlabelled: "eval_label f = [] \<Longrightarrow> label_defaults f = f"
  by (simp add: label_defaults_def)

lemma dispatch_flags: "flags_after (dispatch ext n cfg f w) = f"
  by (cases cfg, cases "dispatch ext n cfg f w") (auto dest: dispatch_cases)

subsection \<open>The assertion on the checkpoint directory\<close>

text \<open>
  Claim C3. When the flags \<^verbatim>\<open>checkpoint_dir\<close> and \<^verbatim>\<open>eval_label\<close> are both empty,
  \<^verbatim>\<open>eval_main\<close> ends with the assertion failure of line 184 and has done no file I/O by
  then: the flags are as they were, the run added no call that leaves the file to the trace
  (no configuration file opened, no directory created, no record file scanned), and the
  files and directories of the world are unchanged.
\<close>

theorem eval_main_missing_checkpoint_dir:
  assumes "checkpoint_dir f = []" and "eval_label f = []"
  shows "outcome (eval_main ext n (f, w)) = Inl (AssertionError ''`checkpoint_dir` is missing.'') \<and>
         flags_after (eval_main ext n (f, w)) = f \<and>
         filter is_external_call (emitted w (world_after (eval_main ext n (f, w)))) = [] \<and>
         gfile_reads (emitted w (world_after (eval_main ext n (f, w)))) = [] \<and>
         mkdirs (emitted w (world_after (eval_main ext n (f, w)))) = [] \<and>
         files (world_after (eval_main ext n (f, w))) = files w \<and>
         record_files (world_after (eval_main ext n (f, w))) = record_files w \<and>
         dirs (world_after (eval_main ext n (f, w))) = dirs w"
proof -
  have "label_defaults f = f"
    using assms by (simp add: label_defaults_def)
  then have "eval_main ext n (f, w) =
      ((f, logged [Enter_eval_main f n] w), Inl (AssertionError ''`checkpoint_dir` is missing.''))"
    using assms by (simp add: eval_main_def log_event_logged)
  then show ?thesis by simp
qed

theorem eval_main_missing_checkpoint_dir_witness:
  "checkpoint_dir example_flags = [] \<and> eval_label example_flags = [] \<and>
   outcome (eval_main example_externals None (example_flags, example_world)) =
     Inl (AssertionError ''`checkpoint_dir` is missing.'') \<and>
   filter is_external_call
     (emitted example_world
        (world_after (eval_main example_externals None (example_flags, example_world)))) = [] \<and>
   dirs (world_after (eval_main example_externals None (example_flags, example_world))) = {''/tmp/ckpt''}"
proof -
  have a: "checkpoint_dir example_flags = []" and b: "eval_label example_flags = []"
    by (simp_all add: example_flags_def)
  have "dirs example_world = {''/tmp/ckpt''}"
    by (simp add: example_world_def)
  with eval_main_missing_checkpoint_dir [OF a b, of example_externals None example_world] a b
  show ?thesis by simp
qed

subsection \<open>The defaults of a label\<close>

text \<open>
  Claim C9. When \<^verbatim>\<open>eval_label\<close> is not empty at the entry of \<^verbatim>\<open>eval_main\<close>, the run
  leaves \<^verbatim>\<open>eval_dir\<close> as \<^verbatim>\<open>'../checkpoints/eval/' + eval_label\<close> and \<^verbatim>\<open>eval_tag\<close> as
  \<^verbatim>\<open>eval_label\<close>, whatever the two flags held, while \<^verbatim>\<open>pipeline_config_path\<close> and
  \<^verbatim>\<open>checkpoint_dir\<close> take their default from the label only when they were empty. No
  later step of the run changes the four flags again.
\<close>

theorem eval_label_overrides:
  assumes "eval_label f \<noteq> []"
  shows "flags_after (eval_main ext n (f, w)) =
       f\<lparr>pipeline_config_path :=
            (if pipeline_config_path f = [] then ''../configs/test/'' @ eval_label f @ ''.config''
             else pipeline_config_path f),
          checkpoint_dir :=
            (if checkpoint_dir f = [] then ''../checkpoints/train/'' @ eval_label f
             else checkpoint_dir f),
          eval_dir := ''../checkpoints/eval/'' @ eval_label f,
          eval_tag := eval_label f\<rparr>"
proof -
  let ?f1 = "label_defaults f"
  have f1: "?f1 = f\<lparr>pipeline_config_path :=
            (if pipeline_config_path f = [] then ''../configs/test/'' @ eval_label f @ ''.config''
             else pipeline_config_path f),
          checkpoint_dir :=
            (if checkpoint_dir f = [] then ''../checkpoints/train/'' @ eval_label f
             else checkpoint_dir f),
          eval_dir := ''../checkpoints/eval/'' @ eval_label f,
          eval_tag := eval_label f\<rparr>"
    using assms by (rule label_defaults_labelled)
  have dir: "eval_dir ?f1 \<noteq> []"
    by (simp add: f1)
  obtain f' w' r where run: "eval_main ext n (f, w) = ((f', w'), r)"
    by (metis surj_pair)
  from run have "f' = ?f1"
  proof (cases rule: eval_main_cases)
    case (resolved w1 cfg f2 w2)
    from resolved(3) dir have "f2 = ?f1"
      by (simp add: derive_eval_dir_given)
    moreover from resolved(4) have "f' = f2"
      using dispatch_flags [of ext n cfg f2 w2] by simp
    ultimately show ?thesis by simp
  qed simp_all
  with run f1 show ?thesis by simp
qed

theorem eval_label_overrides_witness:
  "eval_label (example_flags\<lparr>eval_label := ''a'', eval_dir := ''/out'', eval_tag := ''mine'',
       checkpoint_dir := ''/tmp/ckpt''\<rparr>) \<noteq> [] \<and>
   flags_after (eval_main example_externals None
     (example_flags\<lparr>eval_label := ''a'', eval_dir := ''/out'', eval_tag := ''mine'',
        checkpoint_dir := ''/tmp/ckpt''\<rparr>, example_world)) =
     example_flags\<lparr>eval_label := ''a'', eval_dir := ''../checkpoints/eval/a'', eval_tag := ''a'',
        checkpoint_dir := ''/tmp/ckpt'', pipeline_config_path := ''../configs/test/a.config''\<rparr>"
proof -
  let ?f = "example_flags\<lparr>eval_label := ''a'', eval_dir := ''/out'', eval_tag := ''mine'',
       checkpoint_dir := ''/tmp/ckpt''\<rparr>"
  have a: "eval_label ?f \<noteq> []" by simp
  show ?thesis
    using eval_label_overrides [OF a, of example_externals None example_world]
    by (simp add: example_flags_def)
qed

subsection \<open>The choice of the configuration strategy\<close>

lemma read_message_eq:
  "read_message parse path w =
     (logged [GFile_read path] w,
      case files w path of
        None \<Rightarrow> Inl (NotFoundError path)
      | Some s \<Rightarrow> (case parse s of None \<Rightarrow> Inl (ParseError path) | Some m \<Rightarrow> Inr m))"
  by (simp add: read_message_def gfile_read_def log_event_logged split: option.splits)

lemma dispatch_emits:
  assumes "dispatch ext n cfg f w = ((f', w'), r)"
  shows "\<exists>ds. w' = logged ds w \<and> gfile_reads ds = [] \<and> mkdirs ds = [] \<and> driver_steps ds = []"
proof -
  obtain mc ec ic where "cfg = (mc, ec, ic)"
    by (cases cfg) auto
  with assms have "dispatch ext n (mc, ec, ic) f w = ((f', w'), r)"
    by simp
  from dispatch_cases [OF this] show ?thesis
    by (elim conjE disjE exE) (rule exI, rule conjI, assumption, simp)+
qed

lemma resolve_configs_frame:
  assumes "resolve_configs ext f w = (w', r)"
  shows "files w' = files w" and "record_files w' = record_files w" and "dirs w' = dirs w"
    and "localtime w' = localtime w"
  using resolve_configs_logged [OF assms] by auto

lemma derive_eval_dir_frame:
  assumes "derive_eval_dir f w = (f', w')"
  shows "files w' = files w" and "record_files w' = record_files w"
  using assms by (auto simp: derive_eval_dir_def mkdir_p_def Let_def split: if_splits)

text \<open>
  Claim C1, amended. In every run of \<^verbatim>\<open>eval_main\<close> that passes the assertion on
  \<^verbatim>\<open>checkpoint_dir\<close> (the flag is not empty after the defaults of the label), exactly one
  strategy runs, chosen by a fixed precedence on the flags as the defaults left them:
  strategy A when \<^verbatim>\<open>pipeline_config_path\<close> is not empty, whatever the other path flags
  hold; otherwise strategy B when \<^verbatim>\<open>eval_config_path\<close> is not empty; otherwise strategy C.
  The configuration files the run opens are the files of that strategy, in its order and
  from its first file on: all of them when the run succeeds, and up to the file on which it
  failed otherwise. A run that fails the assertion runs no strategy, which is the
  counterexample to the claim as it was stated.
\<close>

theorem eval_main_strategy_selection:
  assumes "checkpoint_dir (label_defaults f) \<noteq> []"
  shows "gfile_reads (emitted w (world_after (eval_main ext n (f, w)))) \<noteq> [] \<and>
         prefix (gfile_reads (emitted w (world_after (eval_main ext n (f, w)))))
           (strategy_files (select_strategy (label_defaults f)) (label_defaults f)) \<and>
         (outcome (eval_main ext n (f, w)) = Inr () \<longrightarrow>
            gfile_reads (emitted w (world_after (eval_main ext n (f, w)))) =
              strategy_files (select_strategy (label_defaults f)) (label_defaults f))"
proof -
  let ?f1 = "label_defaults f"
  let ?w0 = "logged [Enter_eval_main f n] w"
  let ?paths = "strategy_files (select_strategy ?f1) ?f1"
  obtain f' w' r where run: "eval_main ext n (f, w) = ((f', w'), r)"
    by (metis surj_pair)
  from run have "gfile_reads (emitted w w') \<noteq> [] \<and> prefix (gfile_reads (emitted w w')) ?paths \<and>
      (r = Inr () \<longrightarrow> gfile_reads (emitted w w') = ?paths)"
  proof (cases rule: eval_main_cases)
    case assertion
    with assms show ?thesis by simp
  next
    case (unresolved e)
    from resolve_configs_logged [OF unresolved(2)] obtain reads where
      "w' = logged (map GFile_read reads) ?w0" "reads \<noteq> []" "prefix reads ?paths"
      by blast
    moreover have "gfile_reads (map GFile_read reads) = reads"
      by (induction reads) simp_all
    ultimately show ?thesis
      using unresolved(4) by simp
  next
    case (resolved w1 cfg f2 w2)
    from resolve_configs_logged [OF resolved(2)] obtain reads where
      reads: "w1 = logged (map GFile_read reads) ?w0" "reads \<noteq> []" "reads = ?paths"
      by blast
    have gr: "gfile_reads (map GFile_read reads) = reads"
      by (induction reads) simp_all
    obtain mk where mk: "trace w2 = trace w1 @ map Mkdir_p mk"
      using resolved(3)
      by (cases "eval_dir ?f1 = []")
        (auto simp: derive_eval_dir_def mkdir_p_def Let_def log_event_logged
          intro: that [of "[]"] that [of "[x]" for x])
    have gm: "gfile_reads (map Mkdir_p mk) = []"
      by (induction mk) simp_all
    from dispatch_emits [OF resolved(4)] obtain ds where
      ds: "w' = logged ds w2" "gfile_reads ds = []"
      by blast
    have "trace w' = trace w @ (Enter_eval_main f n # map GFile_read reads @ map Mkdir_p mk @ ds)"
      using reads(1) mk ds(1) by simp
    then have "gfile_reads (emitted w w') = reads"
      using gr gm ds(2) by simp
    with reads show ?thesis by simp
  qed
  with run show ?thesis by simp
qed

theorem eval_main_strategy_selection_witness:
  "checkpoint_dir (label_defaults (example_flags\<lparr>checkpoint_dir := ''/tmp/ckpt'',
       pipeline_config_path := ''p.config'', eval_config_path := ''/tmp/ckpt/eval.config''\<rparr>)) \<noteq> [] \<and>
   gfile_reads (emitted example_world (world_after (eval_main example_externals None
     (example_flags\<lparr>checkpoint_dir := ''/tmp/ckpt'', pipeline_config_path := ''p.config'',
        eval_config_path := ''/tmp/ckpt/eval.config''\<rparr>, example_world)))) = [''p.config'']"
proof -
  let ?f = "example_flags\<lparr>checkpoint_dir := ''/tmp/ckpt'', pipeline_config_path := ''p.config'',
        eval_config_path := ''/tmp/ckpt/eval.config''\<rparr>"
  have ld: "label_defaults ?f = ?f"
    by (simp add: label_defaults_def example_flags_def)
  have a: "checkpoint_dir (label_defaults ?f) \<noteq> []"
    by (simp add: ld)
  have ok: "outcome (eval_main example_externals None (?f, example_world)) = Inr ()"
    by (simp add: run_defs example_defs)
  have sel: "strategy_files (select_strategy ?f) ?f = [''p.config'']"
    by (simp add: select_strategy_def)
  show ?thesis
    using eval_main_strategy_selection [OF a, of example_world example_externals None] a ok sel
    by (simp add: ld)
qed

theorem eval_main_strategy_counterexample:
  "pipeline_config_path (example_flags\<lparr>pipeline_config_path := ''p.config''\<rparr>) \<noteq> [] \<and>
   outcome (eval_main example_externals None
     (example_flags\<lparr>pipeline_config_path := ''p.config''\<rparr>, example_world)) =
     Inl (AssertionError ''`checkpoint_dir` is missing.'') \<and>
   gfile_reads (emitted example_world (world_after (eval_main example_externals None
     (example_flags\<lparr>pipeline_config_path := ''p.config''\<rparr>, example_world)))) = []"
  by (simp add: run_defs example_defs)

subsection \<open>The files of the checkpoint directory\<close>

lemma checkpoint_dir_result:
  "snd (get_configs_from_checkpoint_dir ext f w) = Inr (mc, ec, ic) \<longleftrightarrow>
      (\<exists>s. files w (os_path_join (checkpoint_dir f) ''eval.config'') = Some s \<and>
           parse_eval_config ext s = Some ec) \<and>
      (\<exists>s. files w (os_path_join (checkpoint_dir f) ''model.config'') = Some s \<and>
           parse_model_config ext s = Some mc) \<and>
      (\<exists>s. files w (os_path_join (checkpoint_dir f)
                     (if eval_training_data f then ''train_input.config''
                      else ''eval_input.config'')) = Some s \<and>
           parse_input_reader ext s = Some ic)"
  unfolding get_configs_from_checkpoint_dir_def read_message_eq
  by (cases "eval_training_data f") (simp_all split: option.splits, blast+)

text \<open>
  Claim C6. Under strategy C the three configuration paths are \<^verbatim>\<open>os.path.join\<close> of the
  checkpoint directory with a fixed file name, for every checkpoint directory and every
  value of \<^verbatim>\<open>eval_training_data\<close>: \<^verbatim>\<open>eval.config\<close> is read for the evaluation
  configuration, \<^verbatim>\<open>model.config\<close> for the model configuration, and for the input
  configuration \<^verbatim>\<open>train_input.config\<close> when the flag is true and \<^verbatim>\<open>eval_input.config\<close>
  when it is false. The files are opened in this order, a failure ends the reads, and the
  strategy returns a triple exactly when the three files exist and parse, the triple being
  their three messages.
\<close>

theorem checkpoint_dir_config_paths:
  "gfile_reads (emitted w (fst (get_configs_from_checkpoint_dir ext f w))) \<noteq> [] \<and>
   prefix (gfile_reads (emitted w (fst (get_configs_from_checkpoint_dir ext f w))))
     [os_path_join (checkpoint_dir f) ''eval.config'',
      os_path_join (checkpoint_dir f) ''model.config'',
      os_path_join (checkpoint_dir f)
        (if eval_training_data f then ''train_input.config'' else ''eval_input.config'')] \<and>
   (snd (get_configs_from_checkpoint_dir ext f w) = Inr (mc, ec, ic) \<longleftrightarrow>
      (\<exists>s. files w (os_path_join (checkpoint_dir f) ''eval.config'') = Some s \<and>
           parse_eval_config ext s = Some ec) \<and>
      (\<exists>s. files w (os_path_join (checkpoint_dir f) ''model.config'') = Some s \<and>
           parse_model_config ext s = Some mc) \<and>
      (\<exists>s. files w (os_path_join (checkpoint_dir f)
                     (if eval_training_data f then ''train_input.config''
                      else ''eval_input.config'')) = Some s \<and>
           parse_input_reader ext s = Some ic)) \<and>
   (snd (get_configs_from_checkpoint_dir ext f w) = Inr (mc, ec, ic) \<longrightarrow>
      gfile_reads (emitted w (fst (get_configs_from_checkpoint_dir ext f w))) =
        [os_path_join (checkpoint_dir f) ''eval.config'',
         os_path_join (checkpoint_dir f) ''model.config'',
         os_path_join (checkpoint_dir f)
           (if eval_training_data f then ''train_input.config'' else ''eval_input.config'')])"
proof -
  obtain w' r where run: "get_configs_from_checkpoint_dir ext f w = (w', r)"
    by (cases "get_configs_from_checkpoint_dir ext f w")
  let ?e = "os_path_join (checkpoint_dir f) ''eval.config''"
  let ?m = "os_path_join (checkpoint_dir f) ''model.config''"
  let ?i = "os_path_join (checkpoint_dir f)
              (if eval_training_data f then ''train_input.config'' else ''eval_input.config'')"
  from checkpoint_dir_logged [OF run] consider
      (one) e where "r = Inl e" "w' = logged [GFile_read ?e] w"
    | (two) e where "r = Inl e" "w' = logged [GFile_read ?e, GFile_read ?m] w"
    | (three) "w' = logged [GFile_read ?e, GFile_read ?m, GFile_read ?i] w"
    by blast
  then have "gfile_reads (emitted w w') \<noteq> [] \<and> prefix (gfile_reads (emitted w w')) [?e, ?m, ?i] \<and>
      (r = Inr (mc, ec, ic) \<longrightarrow> gfile_reads (emitted w w') = [?e, ?m, ?i])"
  proof cases
    case one
    then show ?thesis by simp
  next
    case two
    then show ?thesis by simp
  next
    case three
    then show ?thesis by simp
  qed
  moreover note checkpoint_dir_result [of ext f w mc ec ic]
  ultimately show ?thesis
    unfolding run fst_conv snd_conv by blast
qed

theorem checkpoint_dir_config_paths_witness:
  "snd (get_configs_from_checkpoint_dir example_externals
          (example_flags\<lparr>checkpoint_dir := ''/tmp/ckpt''\<rparr>) example_world) =
     Inr (Model_config ''m'', Eval_config ''e'', example_input_reader) \<and>
   gfile_reads (emitted example_world (fst (get_configs_from_checkpoint_dir example_externals
          (example_flags\<lparr>checkpoint_dir := ''/tmp/ckpt''\<rparr>) example_world))) =
     [''/tmp/ckpt/eval.config'', ''/tmp/ckpt/model.config'', ''/tmp/ckpt/eval_input.config'']"
proof -
  let ?f = "example_flags\<lparr>checkpoint_dir := ''/tmp/ckpt''\<rparr>"
  have ok: "snd (get_configs_from_checkpoint_dir example_externals ?f example_world) =
      Inr (Model_config ''m'', Eval_config ''e'', example_input_reader)"
    by (simp add: get_configs_from_checkpoint_dir_def read_message_eq os_path_join_def example_defs)
  have paths: "os_path_join (checkpoint_dir ?f) ''eval.config'' = ''/tmp/ckpt/eval.config''"
    "os_path_join (checkpoint_dir ?f) ''model.config'' = ''/tmp/ckpt/model.config''"
    "os_path_join (checkpoint_dir ?f) ''eval_input.config'' = ''/tmp/ckpt/eval_input.config''"
    "eval_training_data ?f = False"
    by (simp_all add: os_path_join_def example_flags_def)
  show ?thesis
    using checkpoint_dir_config_paths [of example_world example_externals ?f
        "Model_config ''m''" "Eval_config ''e''" example_input_reader] ok
    by (simp only: paths if_False simp_thms)
qed

subsection \<open>The output directory\<close>

lemma gfile_reads_map_GFile_read [simp]: "gfile_reads (map GFile_read ps) = ps"
  by (induction ps) simp_all

lemma mkdirs_map_GFile_read [simp]: "mkdirs (map GFile_read ps) = []"
  by (induction ps) simp_all

lemma evaluate_calls_map_GFile_read [simp]: "evaluate_calls (map GFile_read ps) = []"
  by (induction ps) simp_all

lemma driver_steps_map_GFile_read [simp]: "driver_steps (map GFile_read ps) = []"
  by (induction ps) simp_all

lemma resolve_configs_snd_cong:
  assumes "files w = files v"
  shows "snd (resolve_configs ext f w) = snd (resolve_configs ext f v)"
proof -
  have "snd (get_configs_from_pipeline_file ext f w) = snd (get_configs_from_pipeline_file ext f v)"
    using assms by (simp add: get_configs_from_pipeline_file_def read_message_eq split: option.splits)
  moreover have "snd (get_configs_from_multiple_files ext f w) =
      snd (get_configs_from_multiple_files ext f v)"
    using assms by (simp add: get_configs_from_multiple_files_def read_message_eq split: option.splits)
  moreover have "snd (get_configs_from_checkpoint_dir ext f w) =
      snd (get_configs_from_checkpoint_dir ext f v)"
    using assms by (simp add: get_configs_from_checkpoint_dir_def read_message_eq split: option.splits)
  ultimately show ?thesis
    by (simp add: resolve_configs_def)
qed

lemma derive_eval_dir_fst_cong:
  "localtime w = localtime v \<Longrightarrow> fst (derive_eval_dir f w) = fst (derive_eval_dir f v)"
  by (simp add: derive_eval_dir_def mkdir_p_def Let_def)

lemma dispatch_outcome_cong:
  assumes "files w = files v" and "record_files w = record_files v"
  shows "outcome (dispatch ext n cfg f w) = outcome (dispatch ext n cfg f v)"
  unfolding dispatch_def tf_record_iterator_def load_labelmap_def
  using assms by (simp add: Let_def split: prod.splits option.splits sum.splits)

lemma eval_main_dirs_irrelevant:
  "outcome (eval_main ext n (f, w\<lparr>dirs := X\<rparr>)) = outcome (eval_main ext n (f, w)) \<and>
   flags_after (eval_main ext n (f, w\<lparr>dirs := X\<rparr>)) = flags_after (eval_main ext n (f, w))"
proof (cases "checkpoint_dir (label_defaults f) = []")
  case True
  then show ?thesis by (simp add: eval_main_def Let_def)
next
  case False
  let ?f1 = "label_defaults f"
  let ?e = "Enter_eval_main f n"
  obtain w1 r1 where a: "resolve_configs ext ?f1 (log_event ?e w) = (w1, r1)"
    by (cases "resolve_configs ext ?f1 (log_event ?e w)")
  obtain v1 q1 where b: "resolve_configs ext ?f1 (log_event ?e (w\<lparr>dirs := X\<rparr>)) = (v1, q1)"
    by (cases "resolve_configs ext ?f1 (log_event ?e (w\<lparr>dirs := X\<rparr>))")
  have "files (log_event ?e (w\<lparr>dirs := X\<rparr>)) = files (log_event ?e w)"
    by simp
  from resolve_configs_snd_cong [OF this, of ext ?f1] a b have q: "q1 = r1"
    by simp
  have fr: "files v1 = files w1" "record_files v1 = record_files w1" "localtime v1 = localtime w1"
    using resolve_configs_frame [OF a] resolve_configs_frame [OF b] by simp_all
  show ?thesis
  proof (cases r1)
    case (Inl e)
    with False a b q show ?thesis
      by (simp add: eval_main_def Let_def)
  next
    case (Inr cfg)
    obtain f2 w2 where c: "derive_eval_dir ?f1 w1 = (f2, w2)"
      by (cases "derive_eval_dir ?f1 w1")
    obtain g2 v2 where d: "derive_eval_dir ?f1 v1 = (g2, v2)"
      by (cases "derive_eval_dir ?f1 v1")
    from derive_eval_dir_fst_cong [OF fr(3), of ?f1] c d have g: "g2 = f2"
      by simp
    have "files v2 = files w2" "record_files v2 = record_files w2"
      using derive_eval_dir_frame [OF c] derive_eval_dir_frame [OF d] fr by simp_all
    from dispatch_outcome_cong [OF this, of ext n cfg f2]
    have "outcome (dispatch ext n cfg f2 v2) = outcome (dispatch ext n cfg f2 w2)" .
    moreover have "flags_after (dispatch ext n cfg f2 v2) = flags_after (dispatch ext n cfg f2 w2)"
      by (simp add: dispatch_flags)
    ultimately show ?thesis
      using False a b q Inr c d g by (simp add: eval_main_def Let_def)
  qed
qed


text \<open>
  Claim C4. In a run of \<^verbatim>\<open>eval_main\<close> with \<^verbatim>\<open>eval_label\<close> and \<^verbatim>\<open>eval_dir\<close> empty and
  a tag \<open>t\<close> that is not empty, the output directory derived at lines 193 to 196 is the
  string \<^verbatim>\<open>checkpoint_dir + "_eval_" + t\<close>: the tag is kept (no timestamp), the
  directory is the only one the run creates and it exists afterwards. The derivation is
  reached exactly when the assertion passes and the configuration resolves; a run that
  fails before leaves \<^verbatim>\<open>eval_dir\<close> empty and creates nothing. A directory that exists
  already is no error: started in a world where it exists, the run has the same outcome and
  leaves the same flags.
\<close>

theorem eval_dir_from_tag:
  assumes "eval_label f = []" and "eval_dir f = []" and "eval_tag f \<noteq> []"
  shows "(if checkpoint_dir f \<noteq> [] \<and>
             (\<exists>cfg. snd (resolve_configs ext f (log_event (Enter_eval_main f n) w)) = Inr cfg)
          then eval_dir (flags_after (eval_main ext n (f, w))) =
                 checkpoint_dir f @ ''_eval_'' @ eval_tag f \<and>
               eval_tag (flags_after (eval_main ext n (f, w))) = eval_tag f \<and>
               mkdirs (emitted w (world_after (eval_main ext n (f, w)))) =
                 [checkpoint_dir f @ ''_eval_'' @ eval_tag f] \<and>
               dirs (world_after (eval_main ext n (f, w))) =
                 insert (checkpoint_dir f @ ''_eval_'' @ eval_tag f) (dirs w)
          else eval_dir (flags_after (eval_main ext n (f, w))) = [] \<and>
               mkdirs (emitted w (world_after (eval_main ext n (f, w)))) = [] \<and>
               dirs (world_after (eval_main ext n (f, w))) = dirs w \<and>
               (\<exists>e. outcome (eval_main ext n (f, w)) = Inl e)) \<and>
         outcome (eval_main ext n
           (f, w\<lparr>dirs := insert (checkpoint_dir f @ ''_eval_'' @ eval_tag f) (dirs w)\<rparr>)) =
           outcome (eval_main ext n (f, w)) \<and>
         flags_after (eval_main ext n
           (f, w\<lparr>dirs := insert (checkpoint_dir f @ ''_eval_'' @ eval_tag f) (dirs w)\<rparr>)) =
           flags_after (eval_main ext n (f, w))"
proof -
  let ?D = "checkpoint_dir f @ ''_eval_'' @ eval_tag f"
  let ?w0 = "logged [Enter_eval_main f n] w"
  let ?reaches = "checkpoint_dir f \<noteq> [] \<and>
      (\<exists>cfg. snd (resolve_configs ext f (log_event (Enter_eval_main f n) w)) = Inr cfg)"
  have f1: "label_defaults f = f"
    using assms(1) by (rule label_defaults_unlabelled)
  obtain f' w' r where run: "eval_main ext n (f, w) = ((f', w'), r)"
    by (metis surj_pair)
  from run have "if ?reaches
      then eval_dir f' = ?D \<and> eval_tag f' = eval_tag f \<and> mkdirs (emitted w w') = [?D] \<and>
           dirs w' = insert ?D (dirs w)
      else eval_dir f' = [] \<and> mkdirs (emitted w w') = [] \<and> dirs w' = dirs w \<and> (\<exists>e. r = Inl e)"
  proof (cases rule: eval_main_cases)
    case assertion
    with f1 assms(2) show ?thesis by simp
  next
    case (unresolved e)
    from resolve_configs_logged [OF unresolved(2)] obtain reads where
      "w' = logged (map GFile_read reads) ?w0"
      by blast
    moreover have "\<not> ?reaches"
      using unresolved(2) f1 by (simp add: log_event_logged)
    ultimately show ?thesis
      using unresolved(3,4) f1 assms(2) by simp
  next
    case (resolved w1 cfg f2 w2)
    from resolve_configs_logged [OF resolved(2)] obtain reads where
      w1: "w1 = logged (map GFile_read reads) ?w0"
      by blast
    have "checkpoint_dir f \<noteq> []"
      using resolved(1) f1 by simp
    moreover have "snd (resolve_configs ext f (log_event (Enter_eval_main f n) w)) = Inr cfg"
      using resolved(2) f1 by (simp add: log_event_logged)
    ultimately have reaches: ?reaches
      by blast
    from resolved(3) have f2: "f2 = f\<lparr>eval_dir := ?D\<rparr>"
      and w2: "w2 = logged [Mkdir_p ?D] (w1\<lparr>dirs := insert ?D (dirs w1)\<rparr>)"
      using assms(2,3) by (simp_all add: f1 derive_eval_dir_tagged)
    from dispatch_emits [OF resolved(4)] obtain ds where
      ds: "w' = logged ds w2" "mkdirs ds = []"
      by blast
    have "f' = f2"
      using dispatch_flags [of ext n cfg f2 w2] resolved(4) by simp
    moreover have "trace w' = trace w @ (Enter_eval_main f n # map GFile_read reads @ [Mkdir_p ?D] @ ds)"
      using w1 w2 ds(1) by simp
    then have "mkdirs (emitted w w') = [?D]"
      using ds(2) by simp
    moreover have "dirs w' = insert ?D (dirs w)"
      using w1 w2 ds(1) by simp
    ultimately show ?thesis
      using reaches f2 by simp
  qed
  with run eval_main_dirs_irrelevant [of ext n f "insert ?D (dirs w)" w] show ?thesis
    by (simp only: fst_conv snd_conv simp_thms)
qed


theorem eval_dir_from_tag_witness:
  "eval_label (example_flags\<lparr>checkpoint_dir := ''/tmp/ckpt'', eval_tag := ''run1''\<rparr>) = [] \<and>
   eval_dir (example_flags\<lparr>checkpoint_dir := ''/tmp/ckpt'', eval_tag := ''run1''\<rparr>) = [] \<and>
   eval_tag (example_flags\<lparr>checkpoint_dir := ''/tmp/ckpt'', eval_tag := ''run1''\<rparr>) \<noteq> [] \<and>
   eval_dir (flags_after (eval_main example_externals None
     (example_flags\<lparr>checkpoint_dir := ''/tmp/ckpt'', eval_tag := ''run1''\<rparr>, example_world))) =
     ''/tmp/ckpt_eval_run1'' \<and>
   dirs (world_after (eval_main example_externals None
     (example_flags\<lparr>checkpoint_dir := ''/tmp/ckpt'', eval_tag := ''run1''\<rparr>, example_world))) =
     {''/tmp/ckpt_eval_run1'', ''/tmp/ckpt''} \<and>
   outcome (eval_main example_externals None
     (example_flags\<lparr>checkpoint_dir := ''/tmp/ckpt'', eval_tag := ''run1''\<rparr>,
      example_world\<lparr>dirs := {''/tmp/ckpt_eval_run1'', ''/tmp/ckpt''}\<rparr>)) = Inr ()"
proof -
  let ?f = "example_flags\<lparr>checkpoint_dir := ''/tmp/ckpt'', eval_tag := ''run1''\<rparr>"
  have a: "eval_label ?f = []" and b: "eval_dir ?f = []" and c: "eval_tag ?f \<noteq> []"
    by (simp_all add: example_flags_def)
  have reaches: "checkpoint_dir ?f \<noteq> [] \<and>
      (\<exists>cfg. snd (resolve_configs example_externals ?f
         (log_event (Enter_eval_main ?f None) example_world)) = Inr cfg)"
    by (simp add: run_defs example_defs)
  have ok: "outcome (eval_main example_externals None (?f, example_world)) = Inr ()"
    by (simp add: run_defs example_defs)
  have d: "checkpoint_dir ?f @ ''_eval_'' @ eval_tag ?f = ''/tmp/ckpt_eval_run1''"
    "dirs example_world = {''/tmp/ckpt''}"
    by (simp_all add: example_flags_def example_world_def)
  from eval_dir_from_tag [OF a b c, of example_externals None example_world] reaches
  have "eval_dir (flags_after (eval_main example_externals None (?f, example_world))) =
      checkpoint_dir ?f @ ''_eval_'' @ eval_tag ?f \<and>
    dirs (world_after (eval_main example_externals None (?f, example_world))) =
      insert (checkpoint_dir ?f @ ''_eval_'' @ eval_tag ?f) (dirs example_world) \<and>
    outcome (eval_main example_externals None
      (?f, example_world\<lparr>dirs :=
         insert (checkpoint_dir ?f @ ''_eval_'' @ eval_tag ?f) (dirs example_world)\<rparr>)) =
      outcome (eval_main example_externals None (?f, example_world))"
    by (simp only: if_True simp_thms)
  with a b c ok show ?thesis
    by (simp only: d simp_thms)
qed

text \<open>
  Claim C5, amended. In a run of \<^verbatim>\<open>eval_main\<close> with \<^verbatim>\<open>eval_label\<close>, \<^verbatim>\<open>eval_dir\<close> and
  \<^verbatim>\<open>eval_tag\<close> all empty that reaches the derivation of lines 193 to 196 (the checkpoint
  directory is not empty and the configuration resolves), the tag becomes the local time
  formatted as year, month, day, a dash, hour, minute, second; the output directory is
  \<^verbatim>\<open>checkpoint_dir + "_eval_" +\<close> that tag, it is the one directory the run creates, and
  it exists afterwards. With a label the claim as it was stated fails: the label overrides
  both flags, no tag is taken from the clock and no directory is created.
\<close>

theorem eval_dir_timestamp:
  assumes "eval_label f = []" and "eval_dir f = []" and "eval_tag f = []"
    and "checkpoint_dir f \<noteq> []"
    and "snd (resolve_configs ext f (log_event (Enter_eval_main f n) w)) = Inr cfg"
  shows "eval_tag (flags_after (eval_main ext n (f, w))) = strftime_YmdHMS (localtime w) \<and>
         strftime_YmdHMS (localtime w) =
           decimal (tm_year (localtime w)) @ two_digits (tm_mon (localtime w)) @
           two_digits (tm_mday (localtime w)) @ ''-'' @ two_digits (tm_hour (localtime w)) @
           two_digits (tm_min (localtime w)) @ two_digits (tm_sec (localtime w)) \<and>
         eval_dir (flags_after (eval_main ext n (f, w))) =
           checkpoint_dir f @ ''_eval_'' @ strftime_YmdHMS (localtime w) \<and>
         mkdirs (emitted w (world_after (eval_main ext n (f, w)))) =
           [checkpoint_dir f @ ''_eval_'' @ strftime_YmdHMS (localtime w)] \<and>
         checkpoint_dir f @ ''_eval_'' @ strftime_YmdHMS (localtime w)
           \<in> dirs (world_after (eval_main ext n (f, w)))"
proof -
  let ?T = "strftime_YmdHMS (localtime w)"
  let ?D = "checkpoint_dir f @ ''_eval_'' @ ?T"
  let ?w0 = "logged [Enter_eval_main f n] w"
  have f1: "label_defaults f = f"
    using assms(1) by (rule label_defaults_unlabelled)
  obtain f' w' r where run: "eval_main ext n (f, w) = ((f', w'), r)"
    by (metis surj_pair)
  from run have "eval_tag f' = ?T \<and> eval_dir f' = ?D \<and> mkdirs (emitted w w') = [?D] \<and> ?D \<in> dirs w'"
  proof (cases rule: eval_main_cases)
    case assertion
    with f1 assms(4) show ?thesis by simp
  next
    case (unresolved e)
    with assms(5) f1 show ?thesis by (simp add: log_event_logged)
  next
    case (resolved w1 cfg' f2 w2)
    from resolve_configs_logged [OF resolved(2)] obtain reads where
      w1: "w1 = logged (map GFile_read reads) ?w0"
      by blast
    then have lt: "localtime w1 = localtime w"
      by simp
    from resolved(3) have f2: "f2 = f\<lparr>eval_tag := ?T, eval_dir := ?D\<rparr>"
      and w2: "w2 = logged [Mkdir_p ?D] (w1\<lparr>dirs := insert ?D (dirs w1)\<rparr>)"
      using assms(2,3) by (simp_all add: f1 derive_eval_dir_timestamp lt)
    from dispatch_emits [OF resolved(4)] obtain ds where
      ds: "w' = logged ds w2" "mkdirs ds = []"
      by blast
    have "f' = f2"
      using dispatch_flags [of ext n cfg' f2 w2] resolved(4) by simp
    moreover have "trace w' = trace w @ (Enter_eval_main f n # map GFile_read reads @ [Mkdir_p ?D] @ ds)"
      using w1 w2 ds(1) by simp
    then have "mkdirs (emitted w w') = [?D]"
      using ds(2) by simp
    moreover have "dirs w' = insert ?D (dirs w)"
      using w1 w2 ds(1) by simp
    ultimately show ?thesis
      using f2 by simp
  qed
  with run show ?thesis
    by (simp add: strftime_YmdHMS_def)
qed

theorem eval_dir_timestamp_witness:
  "eval_label (example_flags\<lparr>checkpoint_dir := ''/tmp/ckpt''\<rparr>) = [] \<and>
   eval_dir (example_flags\<lparr>checkpoint_dir := ''/tmp/ckpt''\<rparr>) = [] \<and>
   eval_tag (example_flags\<lparr>checkpoint_dir := ''/tmp/ckpt''\<rparr>) = [] \<and>
   checkpoint_dir (example_flags\<lparr>checkpoint_dir := ''/tmp/ckpt''\<rparr>) \<noteq> [] \<and>
   snd (resolve_configs example_externals (example_flags\<lparr>checkpoint_dir := ''/tmp/ckpt''\<rparr>)
     (log_event (Enter_eval_main (example_flags\<lparr>checkpoint_dir := ''/tmp/ckpt''\<rparr>) None)
        example_world)) =
     Inr (Model_config ''m'', Eval_config ''e'', example_input_reader) \<and>
   eval_tag (flags_after (eval_main example_externals None
     (example_flags\<lparr>checkpoint_dir := ''/tmp/ckpt''\<rparr>, example_world))) = ''20261103-070509'' \<and>
   eval_dir (flags_after (eval_main example_externals None
     (example_flags\<lparr>checkpoint_dir := ''/tmp/ckpt''\<rparr>, example_world))) =
     ''/tmp/ckpt_eval_20261103-070509'' \<and>
   ''/tmp/ckpt_eval_20261103-070509'' \<in> dirs (world_after (eval_main example_externals None
     (example_flags\<lparr>checkpoint_dir := ''/tmp/ckpt''\<rparr>, example_world)))"
proof -
  let ?f = "example_flags\<lparr>checkpoint_dir := ''/tmp/ckpt''\<rparr>"
  have a: "eval_label ?f = []" and b: "eval_dir ?f = []" and c: "eval_tag ?f = []"
    and d: "checkpoint_dir ?f \<noteq> []"
    by (simp_all add: example_flags_def)
  have e: "snd (resolve_configs example_externals ?f
      (log_event (Enter_eval_main ?f None) example_world)) =
      Inr (Model_config ''m'', Eval_config ''e'', example_input_reader)"
    by (simp add: run_defs example_defs)
  have t: "strftime_YmdHMS (localtime example_world) = ''20261103-070509''"
    by (simp add: strftime_YmdHMS_def two_digits_def digit_char_def example_world_def)
  have p: "checkpoint_dir ?f @ ''_eval_'' @ ''20261103-070509'' = ''/tmp/ckpt_eval_20261103-070509''"
    by (simp add: example_flags_def)
  from eval_dir_timestamp [OF a b c d e]
  have "eval_tag (flags_after (eval_main example_externals None (?f, example_world))) =
      strftime_YmdHMS (localtime example_world) \<and>
    eval_dir (flags_after (eval_main example_externals None (?f, example_world))) =
      checkpoint_dir ?f @ ''_eval_'' @ strftime_YmdHMS (localtime example_world) \<and>
    checkpoint_dir ?f @ ''_eval_'' @ strftime_YmdHMS (localtime example_world)
      \<in> dirs (world_after (eval_main example_externals None (?f, example_world)))"
    by blast
  with a b c d e show ?thesis
    by (simp only: t p simp_thms)
qed

theorem eval_dir_timestamp_counterexample:
  "eval_dir (example_flags\<lparr>eval_label := ''a''\<rparr>) = [] \<and>
   eval_tag (example_flags\<lparr>eval_label := ''a''\<rparr>) = [] \<and>
   outcome (eval_main example_externals None
     (example_flags\<lparr>eval_label := ''a''\<rparr>, example_world)) = Inr () \<and>
   strftime_YmdHMS (localtime example_world) = ''20261103-070509'' \<and>
   eval_tag (flags_after (eval_main example_externals None
     (example_flags\<lparr>eval_label := ''a''\<rparr>, example_world))) = ''a'' \<and>
   eval_dir (flags_after (eval_main example_externals None
     (example_flags\<lparr>eval_label := ''a''\<rparr>, example_world))) = ''../checkpoints/eval/a'' \<and>
   mkdirs (emitted example_world (world_after (eval_main example_externals None
     (example_flags\<lparr>eval_label := ''a''\<rparr>, example_world)))) = [] \<and>
   ''../checkpoints/eval/a'' \<notin> dirs (world_after (eval_main example_externals None
     (example_flags\<lparr>eval_label := ''a''\<rparr>, example_world)))"
  by (simp add: run_defs example_defs)

subsection \<open>What the evaluator is called with\<close>

lemma evaluate_calls_map_Mkdir_p [simp]: "evaluate_calls (map Mkdir_p ps) = []"
  by (induction ps) simp_all

lemma driver_steps_map_Mkdir_p [simp]: "driver_steps (map Mkdir_p ps) = []"
  by (induction ps) simp_all

lemma derive_eval_dir_mkdirs:
  assumes "derive_eval_dir f w = (f', w')"
  shows "\<exists>mk. trace w' = trace w @ map Mkdir_p mk"
proof (cases "eval_dir f = []")
  case True
  with assms have "trace w' = trace w @ map Mkdir_p [checkpoint_dir f' @ ''_eval_'' @ eval_tag f']"
    by (auto simp: derive_eval_dir_def mkdir_p_def Let_def)
  then show ?thesis ..
next
  case False
  with assms have "trace w' = trace w @ map Mkdir_p []"
    by (simp add: derive_eval_dir_def)
  then show ?thesis ..
qed


lemma cat_id_category_for [simp]: "cat_id (category_for ext label_map i) = i"
  by (simp add: category_for_def split: option.splits)


lemma eval_main_evaluate_calls:
  assumes "args \<in> set (evaluate_calls (emitted w (world_after (eval_main ext n (f, w)))))"
  shows "\<exists>records s label_map m.
           record_files w (input_path (arg_create_input_dict_fn args)) = Some records \<and>
           files w (label_map_path (arg_create_input_dict_fn args)) = Some s \<and>
           parse_labelmap ext s = Some label_map \<and>
           py_max (map item_id label_map) = Inr m \<and>
           arg_categories args = convert_label_map_to_categories ext label_map m \<and>
           arg_num_examples args = length records \<and>
           arg_max_number_of_evaluations args = n"
proof -
  let ?w0 = "logged [Enter_eval_main f n] w"
  obtain f' w' r where run: "eval_main ext n (f, w) = ((f', w'), r)"
    by (metis surj_pair)
  with assms have mem: "args \<in> set (evaluate_calls (emitted w w'))"
    by simp
  from run show ?thesis
  proof (cases rule: eval_main_cases)
    case assertion
    with mem show ?thesis by simp
  next
    case (unresolved e)
    from resolve_configs_logged [OF unresolved(2)] obtain reads where
      "w' = logged (map GFile_read reads) ?w0"
      by blast
    with mem show ?thesis by simp
  next
    case (resolved w1 cfg f2 w2)
    from resolve_configs_logged [OF resolved(2)] obtain reads where
      w1: "w1 = logged (map GFile_read reads) ?w0"
      by blast
    from derive_eval_dir_mkdirs [OF resolved(3)] obtain mk where
      mk: "trace w2 = trace w1 @ map Mkdir_p mk"
      by blast
    have fr: "files w2 = files w" "record_files w2 = record_files w"
      using derive_eval_dir_frame [OF resolved(3)] w1 by simp_all
    obtain mc ec ic where cfg: "cfg = (mc, ec, ic)"
      by (cases cfg) auto
    have pre: "trace w2 = trace w @ (Enter_eval_main f n # map GFile_read reads @ map Mkdir_p mk)"
      using w1 mk by simp
    from resolved(4) cfg have "dispatch ext n (mc, ec, ic) f2 w2 = ((f', w'), r)"
      by simp
    from dispatch_cases [OF this] consider
        (scan) "w' = logged [Tf_record_iterator (input_path ic)] w2"
      | (load) "w' = logged [Tf_record_iterator (input_path ic),
                  Load_labelmap (label_map_path ic)] w2"
      | (call) records s label_map m where
          "record_files w2 (input_path ic) = Some records"
          "files w2 (label_map_path ic) = Some s"
          "parse_labelmap ext s = Some label_map"
          "py_max (map item_id label_map) = Inr m"
          "w' = logged [Tf_record_iterator (input_path ic), Load_labelmap (label_map_path ic),
               Evaluate \<lparr>arg_create_input_dict_fn = ic,
                 arg_model_fn = (mc, False),
                 arg_eval_config = ec,
                 arg_categories = convert_label_map_to_categories ext label_map m,
                 arg_checkpoint_dir = checkpoint_dir f2,
                 arg_eval_dir = eval_dir f2,
                 arg_num_examples = length records,
                 arg_gpu_fraction = gpu_fraction f2,
                 arg_max_number_of_evaluations = n\<rparr>] w2"
      by blast
    then show ?thesis
    proof cases
      case scan
      with pre mem show ?thesis by simp
    next
      case load
      with pre mem show ?thesis by simp
    next
      case call
      let ?a = "\<lparr>arg_create_input_dict_fn = ic,
                 arg_model_fn = (mc, False),
                 arg_eval_config = ec,
                 arg_categories = convert_label_map_to_categories ext label_map m,
                 arg_checkpoint_dir = checkpoint_dir f2,
                 arg_eval_dir = eval_dir f2,
                 arg_num_examples = length records,
                 arg_gpu_fraction = gpu_fraction f2,
                 arg_max_number_of_evaluations = n\<rparr>"
      from call(5) pre mem have "args = ?a"
        by simp
      with call(1-4) fr show ?thesis
        by simp
    qed
  qed
qed

lemma example_run_calls:
  "evaluate_calls (emitted example_world (world_after (eval_main example_externals None
     (example_flags\<lparr>checkpoint_dir := ''/tmp/ckpt''\<rparr>, example_world)))) = [example_evaluate_args]"
  by (simp add: run_defs example_defs example_evaluate_args_def upto.simps [of 1])





text \<open>
  Claim C8. The example count passed to the evaluator is the number of serialized records of
  the input file named by the resolved input configuration: the records are counted as the
  iterator yields them, none is skipped and none is parsed.
\<close>

theorem example_count_is_record_count:
  assumes "args \<in> set (evaluate_calls (emitted w (world_after (eval_main ext n (f, w)))))"
  shows "\<exists>records.
           record_files w (input_path (arg_create_input_dict_fn args)) = Some records \<and>
           arg_num_examples args = length records"
  using eval_main_evaluate_calls [OF assms] by blast

theorem example_count_is_record_count_witness:
  "example_evaluate_args \<in> set (evaluate_calls (emitted example_world (world_after
     (eval_main example_externals None
        (example_flags\<lparr>checkpoint_dir := ''/tmp/ckpt''\<rparr>, example_world))))) \<and>
   record_files example_world (input_path (arg_create_input_dict_fn example_evaluate_args)) =
     Some (replicate 10 ''record'') \<and>
   arg_num_examples example_evaluate_args = 10"
proof -
  have mem: "example_evaluate_args \<in> set (evaluate_calls (emitted example_world (world_after
     (eval_main example_externals None
        (example_flags\<lparr>checkpoint_dir := ''/tmp/ckpt''\<rparr>, example_world)))))"
    by (simp add: example_run_calls)
  have content: "record_files example_world
      (input_path (arg_create_input_dict_fn example_evaluate_args)) = Some (replicate 10 ''record'')"
    by (simp add: example_defs example_evaluate_args_def)
  from example_count_is_record_count [OF mem] obtain records where
    h: "record_files example_world
          (input_path (arg_create_input_dict_fn example_evaluate_args)) = Some records"
      "arg_num_examples example_evaluate_args = length records"
    by blast
  from h(1) content have "records = replicate 10 ''record''"
    by simp
  with h(2) have "arg_num_examples example_evaluate_args = 10"
    by simp
  with mem content show ?thesis
    by (simp only: simp_thms)
qed

subsection \<open>The loop over the labels\<close>

lemma split_on_not_Nil [simp]: "split_on sep s \<noteq> []"
  by (induction s) (auto split: list.splits)

lemma split_on_single: "split_on sep s = [[]] \<Longrightarrow> s = []"
  by (cases s) (auto split: if_splits list.splits)

lemma eval_main_driver_steps:
  assumes "eval_main ext n (f, w) = ((f', w'), r)"
  shows "\<exists>es. trace w' = trace w @ Enter_eval_main f n # es \<and> driver_steps es = []"
  using assms
proof (cases rule: eval_main_cases)
  case assertion
  then have "trace w' = trace w @ Enter_eval_main f n # []" by simp
  then show ?thesis by fastforce
next
  case (unresolved e)
  from resolve_configs_logged [OF unresolved(2)] obtain reads where
    "w' = logged (map GFile_read reads) (logged [Enter_eval_main f n] w)"
    by blast
  then have "trace w' = trace w @ Enter_eval_main f n # map GFile_read reads" by simp
  moreover have "driver_steps (map GFile_read reads) = []" by simp
  ultimately show ?thesis by blast
next
  case (resolved w1 cfg f2 w2)
  from resolve_configs_logged [OF resolved(2)] obtain reads where
    w1: "w1 = logged (map GFile_read reads) (logged [Enter_eval_main f n] w)"
    by blast
  from derive_eval_dir_mkdirs [OF resolved(3)] obtain mk where
    mk: "trace w2 = trace w1 @ map Mkdir_p mk"
    by blast
  from dispatch_emits [OF resolved(4)] obtain ds where
    ds: "w' = logged ds w2" "driver_steps ds = []"
    by blast
  have "trace w' = trace w @ Enter_eval_main f n # (map GFile_read reads @ map Mkdir_p mk @ ds)"
    using w1 mk ds(1) by simp
  moreover have "driver_steps (map GFile_read reads @ map Mkdir_p mk @ ds) = []"
    using ds(2) by simp
  ultimately show ?thesis by blast
qed

lemma run_labels_pass:
  assumes "run_labels ext labels (f, w) = ((f', w'), r)" and "labels \<noteq> []"
  shows "\<exists>k es. 0 < k \<and> k \<le> length labels \<and>
           trace w' = trace w @ es \<and>
           driver_steps es =
             concat (map (\<lambda>label. [Reset_step, Call_step label [] [] (Some 1)]) (take k labels)) \<and>
           (\<forall>j<k - 1.
              outcome (eval_main ext (Some 1)
                (enter_label (labels ! j) (after_runs ext (take j labels) (f, w)))) = Inr ()) \<and>
           eval_main ext (Some 1)
             (enter_label (labels ! (k - 1)) (after_runs ext (take (k - 1) labels) (f, w))) =
             ((f', w'), r) \<and>
           (k < length labels \<longrightarrow> (\<exists>e. r = Inl e))"
  using assms
proof (induction labels arbitrary: f w)
  case Nil
  then show ?case by simp
next
  case (Cons label labels)
  let ?f0 = "f\<lparr>eval_label := label, pipeline_config_path := [], checkpoint_dir := []\<rparr>"
  let ?w0 = "log_event Reset_default_graph w"
  let ?step = "\<lambda>label. [Reset_step, Call_step label [] [] (Some 1)]"
  let ?first = "Reset_default_graph # Enter_eval_main ?f0 (Some 1) # es1"
  have enter: "enter_label label (f, w) = (?f0, ?w0)"
    by (simp add: enter_label_def)
  obtain f1 w1 r1 where run1: "eval_main ext (Some 1) (?f0, ?w0) = ((f1, w1), r1)"
    by (metis surj_pair)
  from eval_main_driver_steps [OF run1] obtain es1 where
    es1: "trace w1 = trace ?w0 @ Enter_eval_main ?f0 (Some 1) # es1" "driver_steps es1 = []"
    by blast
  have head: "trace w1 = trace w @ (Reset_default_graph # Enter_eval_main ?f0 (Some 1) # es1)"
    using es1(1) by simp
  have steps1: "driver_steps (Reset_default_graph # Enter_eval_main ?f0 (Some 1) # es1) = ?step label"
    using es1(2) by simp
  have only: "0 < (1::nat) \<and> 1 \<le> length (label # labels) \<and>
      driver_steps (Reset_default_graph # Enter_eval_main ?f0 (Some 1) # es1) =
        concat (map ?step (take 1 (label # labels))) \<and>
      (\<forall>j<(1::nat) - 1.
         outcome (eval_main ext (Some 1)
           (enter_label ((label # labels) ! j)
              (after_runs ext (take j (label # labels)) (f, w)))) = Inr ()) \<and>
      eval_main ext (Some 1)
        (enter_label ((label # labels) ! (1 - 1))
           (after_runs ext (take (1 - 1) (label # labels)) (f, w))) = ((f1, w1), r1)"
    using steps1 run1 enter by simp
  show ?case
  proof (cases "(\<exists>e. r1 = Inl e) \<or> labels = []")
    case True
    have res: "f' = f1" "w' = w1" "r = r1"
      using True Cons.prems(1) run1 by (auto split: sum.splits)
    have "1 < length (label # labels) \<longrightarrow> (\<exists>e. r = Inl e)"
      using True res(3) by auto
    with only head res show ?thesis
      by (intro exI [of _ "1::nat"]
          exI [of _ "Reset_default_graph # Enter_eval_main ?f0 (Some 1) # es1"]) simp
  next
    case False
    then have r1: "r1 = Inr ()" and ne: "labels \<noteq> []"
      by (cases r1; simp)+
    from Cons.prems(1) run1 r1 have "run_labels ext labels (f1, w1) = ((f', w'), r)"
      by simp
    from Cons.IH [OF this ne] obtain k es where
      rest: "0 < k" "k \<le> length labels" "trace w' = trace w1 @ es"
        "driver_steps es = concat (map ?step (take k labels))"
        "\<forall>j<k - 1. outcome (eval_main ext (Some 1)
            (enter_label (labels ! j) (after_runs ext (take j labels) (f1, w1)))) = Inr ()"
        "eval_main ext (Some 1)
           (enter_label (labels ! (k - 1)) (after_runs ext (take (k - 1) labels) (f1, w1))) =
           ((f', w'), r)"
        "k < length labels \<longrightarrow> (\<exists>e. r = Inl e)"
      by blast
    have after: "after_runs ext (label # xs) (f, w) = after_runs ext xs (f1, w1)" for xs
      by (simp only: after_runs.simps enter run1 fst_conv)
    have tr: "trace w' = trace w @ ((Reset_default_graph # Enter_eval_main ?f0 (Some 1) # es1) @ es)"
      using head rest(3) by simp
    have st: "driver_steps ((Reset_default_graph # Enter_eval_main ?f0 (Some 1) # es1) @ es) =
        concat (map ?step (take (Suc k) (label # labels)))"
    proof -
      have "driver_steps ((Reset_default_graph # Enter_eval_main ?f0 (Some 1) # es1) @ es) =
          driver_steps (Reset_default_graph # Enter_eval_main ?f0 (Some 1) # es1) @ driver_steps es"
        by (rule driver_steps_append)
      also have "\<dots> = ?step label @ concat (map ?step (take k labels))"
        by (simp only: steps1 rest(4))
      also have "\<dots> = concat (map ?step (take (Suc k) (label # labels)))"
        by simp
      finally show ?thesis .
    qed
    have earlier: "\<forall>j<Suc k - 1. outcome (eval_main ext (Some 1)
        (enter_label ((label # labels) ! j)
           (after_runs ext (take j (label # labels)) (f, w)))) = Inr ()"
    proof (intro allI impI)
      fix j
      assume j: "j < Suc k - 1"
      show "outcome (eval_main ext (Some 1)
          (enter_label ((label # labels) ! j)
             (after_runs ext (take j (label # labels)) (f, w)))) = Inr ()"
      proof (cases j)
        case 0
        then show ?thesis
          using run1 r1 enter by simp
      next
        case (Suc i)
        with j have "i < k - 1"
          by simp
        with rest(5) have "outcome (eval_main ext (Some 1)
            (enter_label (labels ! i) (after_runs ext (take i labels) (f1, w1)))) = Inr ()"
          by blast
        then show ?thesis
          unfolding Suc by (simp only: nth_Cons_Suc take_Suc_Cons after)
      qed
    qed
    obtain i where k: "k = Suc i"
      using rest(1) by (cases k) auto
    have last_run: "eval_main ext (Some 1)
        (enter_label ((label # labels) ! (Suc k - 1))
           (after_runs ext (take (Suc k - 1) (label # labels)) (f, w))) = ((f', w'), r)"
      using rest(6) unfolding k by (simp only: diff_Suc_1 nth_Cons_Suc take_Suc_Cons after)
    have bound: "0 < Suc k \<and> Suc k \<le> length (label # labels)"
      using rest(2) by simp
    have more: "Suc k < length (label # labels) \<longrightarrow> (\<exists>e. r = Inl e)"
      using rest(7) by simp
    from bound tr st earlier last_run more show ?thesis
      by (intro exI [of _ "Suc k"]
          exI [of _ "(Reset_default_graph # Enter_eval_main ?f0 (Some 1) # es1) @ es"]) blast
  qed
qed

lemma run_labels_append:
  "run_labels ext (xs @ ys) s =
     (case run_labels ext xs s of
        (s1, Inl e) \<Rightarrow> (s1, Inl e)
      | (s1, Inr u) \<Rightarrow> run_labels ext ys s1)"
proof (induction xs arbitrary: s)
  case Nil
  show ?case by simp
next
  case (Cons x xs)
  obtain f w where s: "s = (f, w)"
    by (cases s)
  show ?case
    unfolding s by (simp add: Cons.IH split: prod.splits sum.splits)
qed

text \<open>
  Claim C2, amended. When \<^verbatim>\<open>eval_label\<close> splits on commas into more than one element,
  \<^verbatim>\<open>main\<close> takes the multi-run path and makes one pass over the list, in its order and
  with no label taken twice. For each label it reaches it resets the default graph and
  enters \<^verbatim>\<open>eval_main\<close> with \<^verbatim>\<open>eval_label\<close> set to the label, \<^verbatim>\<open>pipeline_config_path\<close>
  and \<^verbatim>\<open>checkpoint_dir\<close> empty and \<^verbatim>\<open>max_number_of_evaluations\<close> equal to 1. Every run
  before the last one entered has returned, and what \<^verbatim>\<open>main\<close> ends with is what the last
  run entered ends with: the pass reaches every label when no run raises, and a run that
  raises is the last one entered, so the labels after it are not run. That is the
  counterexample to the claim as it was stated: with the flag \<^verbatim>\<open>",a"\<close> the run of the
  empty first label fails the assertion and the label \<^verbatim>\<open>a\<close> is never run.
\<close>

theorem main_multi_run:
  assumes "1 < length (split_on CHR '','' (eval_label f))"
  shows "\<exists>k. 0 < k \<and> k \<le> length (split_on CHR '','' (eval_label f)) \<and>
           driver_steps (emitted w (world_after (main ext (f, w)))) =
             concat (map (\<lambda>label. [Reset_step, Call_step label [] [] (Some 1)])
               (take k (split_on CHR '','' (eval_label f)))) \<and>
           (\<forall>j<k - 1.
              outcome (eval_main ext (Some 1)
                (enter_label (split_on CHR '','' (eval_label f) ! j)
                   (after_runs ext (take j (split_on CHR '','' (eval_label f))) (f, w)))) =
                Inr ()) \<and>
           main ext (f, w) =
             eval_main ext (Some 1)
               (enter_label (split_on CHR '','' (eval_label f) ! (k - 1))
                  (after_runs ext (take (k - 1) (split_on CHR '','' (eval_label f))) (f, w))) \<and>
           (outcome (main ext (f, w)) = Inr () \<longrightarrow>
              k = length (split_on CHR '','' (eval_label f))) \<and>
           (k < length (split_on CHR '','' (eval_label f)) \<longrightarrow>
              (\<exists>e. outcome (main ext (f, w)) = Inl e))"
proof -
  let ?labels = "split_on CHR '','' (eval_label f)"
  from assms have "eval_label f \<noteq> []"
    by auto
  with assms have m: "main ext (f, w) = run_labels ext ?labels (f, w)"
    by (simp add: main_def Let_def)
  obtain f' w' r where run: "run_labels ext ?labels (f, w) = ((f', w'), r)"
    by (metis surj_pair)
  from assms have "?labels \<noteq> []"
    by auto
  from run_labels_pass [OF run this] obtain k es where
    k: "0 < k" "k \<le> length ?labels" "trace w' = trace w @ es"
      "driver_steps es =
         concat (map (\<lambda>label. [Reset_step, Call_step label [] [] (Some 1)]) (take k ?labels))"
      "\<forall>j<k - 1. outcome (eval_main ext (Some 1)
          (enter_label (?labels ! j) (after_runs ext (take j ?labels) (f, w)))) = Inr ()"
      "eval_main ext (Some 1)
         (enter_label (?labels ! (k - 1)) (after_runs ext (take (k - 1) ?labels) (f, w))) =
         ((f', w'), r)"
      "k < length ?labels \<longrightarrow> (\<exists>e. r = Inl e)"
    by blast
  from k(3,4) have steps: "driver_steps (emitted w w') =
      concat (map (\<lambda>label. [Reset_step, Call_step label [] [] (Some 1)]) (take k ?labels))"
    by simp
  from k(7) have full: "r = Inr () \<longrightarrow> k = length ?labels"
    using k(2) by (cases "k < length ?labels") auto
  have res: "main ext (f, w) = ((f', w'), r)"
    by (simp only: m run)
  show ?thesis
    unfolding res fst_conv snd_conv
    using k(1,2) steps k(5) k(6) [symmetric] full k(7) by (intro exI [of _ k]) blast
qed

theorem main_multi_run_witness:
  "1 < length (split_on CHR '','' (eval_label (example_flags\<lparr>eval_label := ''a,a''\<rparr>))) \<and>
   outcome (main example_externals (example_flags\<lparr>eval_label := ''a,a''\<rparr>, example_world)) =
     Inr () \<and>
   driver_steps (emitted example_world (world_after
     (main example_externals (example_flags\<lparr>eval_label := ''a,a''\<rparr>, example_world)))) =
     [Reset_step, Call_step ''a'' [] [] (Some 1), Reset_step, Call_step ''a'' [] [] (Some 1)]"
proof -
  let ?f = "example_flags\<lparr>eval_label := ''a,a''\<rparr>"
  have labels: "split_on CHR '','' (eval_label ?f) = [''a'', ''a'']"
    by simp
  then have a: "1 < length (split_on CHR '','' (eval_label ?f))"
    by simp
  have ok: "outcome (main example_externals (?f, example_world)) = Inr ()"
    by (simp add: main_def run_defs example_defs)
  from main_multi_run [OF a, of example_world example_externals] obtain k where
    k: "driver_steps (emitted example_world (world_after (main example_externals (?f, example_world)))) =
          concat (map (\<lambda>label. [Reset_step, Call_step label [] [] (Some 1)])
            (take k (split_on CHR '','' (eval_label ?f))))"
      "outcome (main example_externals (?f, example_world)) = Inr () \<longrightarrow>
         k = length (split_on CHR '','' (eval_label ?f))"
    by blast
  from k(2) ok have "k = length (split_on CHR '','' (eval_label ?f))"
    by blast
  with k(1) have "driver_steps (emitted example_world (world_after
      (main example_externals (?f, example_world)))) =
      [Reset_step, Call_step ''a'' [] [] (Some 1), Reset_step, Call_step ''a'' [] [] (Some 1)]"
    by (simp only: labels) simp
  with a ok show ?thesis
    by (simp only: simp_thms)
qed

theorem main_multi_run_counterexample:
  "split_on CHR '','' (eval_label (example_flags\<lparr>eval_label := '',a''\<rparr>)) = [[], ''a''] \<and>
   outcome (main example_externals (example_flags\<lparr>eval_label := '',a''\<rparr>, example_world)) =
     Inl (AssertionError ''`checkpoint_dir` is missing.'') \<and>
   driver_steps (emitted example_world (world_after
     (main example_externals (example_flags\<lparr>eval_label := '',a''\<rparr>, example_world)))) =
     [Reset_step, Call_step [] [] [] (Some 1)]"
  by (simp add: main_def run_defs example_defs)

text \<open>
  Claim C10. An empty element in a non-empty \<^verbatim>\<open>eval_label\<close> (a trailing comma, as in
  \<^verbatim>\<open>"a,"\<close>) makes the split longer than one, so \<^verbatim>\<open>main\<close> takes the multi-run path; once
  the runs of the labels before the empty element have returned, its own run starts with
  \<^verbatim>\<open>checkpoint_dir\<close> reset to empty and no label to take a default from, and ends with the
  assertion failure \<^verbatim>\<open>`checkpoint_dir` is missing.\<close> The witness is the flag \<^verbatim>\<open>"a,"\<close>:
  the run of \<^verbatim>\<open>a\<close> calls the evaluator once, then the run of the empty label fails.
\<close>

theorem empty_label_fails_assertion:
  assumes "eval_label f \<noteq> []"
    and "split_on CHR '','' (eval_label f) = pre @ [] # post"
    and "run_labels ext pre (f, w) = ((f1, w1), Inr ())"
  shows "1 < length (split_on CHR '','' (eval_label f)) \<and>
         main ext (f, w) =
           ((f1\<lparr>eval_label := [], pipeline_config_path := [], checkpoint_dir := []\<rparr>,
             log_event
               (Enter_eval_main
                  (f1\<lparr>eval_label := [], pipeline_config_path := [], checkpoint_dir := []\<rparr>) (Some 1))
               (log_event Reset_default_graph w1)),
            Inl (AssertionError ''`checkpoint_dir` is missing.''))"
proof -
  let ?labels = "split_on CHR '','' (eval_label f)"
  let ?f0 = "f1\<lparr>eval_label := [], pipeline_config_path := [], checkpoint_dir := []\<rparr>"
  let ?w0 = "log_event Reset_default_graph w1"
  have "?labels \<noteq> [[]]"
    using assms(1) split_on_single by blast
  with assms(2) have len: "1 < length ?labels"
    by (cases pre; cases post) simp_all
  with assms(1) have "main ext (f, w) = run_labels ext ?labels (f, w)"
    by (simp add: main_def Let_def)
  also have "\<dots> = run_labels ext (pre @ [] # post) (f, w)"
    by (simp only: assms(2))
  also have "\<dots> = run_labels ext ([] # post) (f1, w1)"
    by (simp add: run_labels_append assms(3))
  also have "\<dots> = ((?f0, log_event (Enter_eval_main ?f0 (Some 1)) ?w0),
      Inl (AssertionError ''`checkpoint_dir` is missing.''))"
    by (simp add: eval_main_def label_defaults_def)
  finally show ?thesis
    using len by simp
qed

theorem empty_label_fails_assertion_witness:
  "eval_label (example_flags\<lparr>eval_label := ''a,''\<rparr>) \<noteq> [] \<and>
   split_on CHR '','' (eval_label (example_flags\<lparr>eval_label := ''a,''\<rparr>)) = [''a''] @ [] # [] \<and>
   outcome (run_labels example_externals [''a'']
     (example_flags\<lparr>eval_label := ''a,''\<rparr>, example_world)) = Inr () \<and>
   1 < length (split_on CHR '','' (eval_label (example_flags\<lparr>eval_label := ''a,''\<rparr>))) \<and>
   outcome (main example_externals (example_flags\<lparr>eval_label := ''a,''\<rparr>, example_world)) =
     Inl (AssertionError ''`checkpoint_dir` is missing.'') \<and>
   driver_steps (emitted example_world (world_after
     (main example_externals (example_flags\<lparr>eval_label := ''a,''\<rparr>, example_world)))) =
     [Reset_step, Call_step ''a'' [] [] (Some 1), Reset_step, Call_step [] [] [] (Some 1)] \<and>
   length (evaluate_calls (emitted example_world (world_after
     (main example_externals (example_flags\<lparr>eval_label := ''a,''\<rparr>, example_world))))) = 1"
proof -
  let ?f = "example_flags\<lparr>eval_label := ''a,''\<rparr>"
  let ?pre = "run_labels example_externals [''a''] (?f, example_world)"
  have a: "eval_label ?f \<noteq> []"
    by simp
  have b: "split_on CHR '','' (eval_label ?f) = [''a''] @ [] # []"
    by simp
  have ok: "outcome ?pre = Inr ()"
    by (simp add: run_defs example_defs)
  then have c: "?pre = ((flags_after ?pre, world_after ?pre), Inr ())"
    by (metis prod.collapse)
  have steps: "driver_steps (emitted example_world (world_after
      (main example_externals (?f, example_world)))) =
      [Reset_step, Call_step ''a'' [] [] (Some 1), Reset_step, Call_step [] [] [] (Some 1)]"
    by (simp add: main_def run_defs example_defs)
  have calls: "length (evaluate_calls (emitted example_world (world_after
      (main example_externals (?f, example_world))))) = 1"
    by (simp add: main_def run_defs example_defs)
  from empty_label_fails_assertion [OF a b c]
  have "1 < length (split_on CHR '','' (eval_label ?f)) \<and>
    outcome (main example_externals (?f, example_world)) =
      Inl (AssertionError ''`checkpoint_dir` is missing.'')"
    by simp
  with a b ok steps calls show ?thesis
    by (simp only: simp_thms)
qed

end
